theory Spec2Isabelle
  imports
    Main
    "HOL-Library.Multiset"
    "HOL-Library.AList"
    "HOL-Library.Char_ord"
    "HOL-Library.List_Lexorder"
begin

section \<open>The broker RPC client of src/broker/index.ts\<close>

text \<open>
  The class \<^verbatim>\<open>Broker\<close> is embedded with explicit state passing. The broker's own fields
  are a record; the collaborators it only holds a handle to (the connection, the lock, the
  SASL authenticator, the monotonic clock) are an environment whose answers are functions of
  the history of calls made so far. Every call to a collaborator appends an event to that
  history, so that the number and the order of the calls can be read off afterwards.
  A raised exception is the \<open>Inl\<close> branch of a sum.
\<close>

subsection \<open>Values, errors, requests and responses\<close>

text \<open>Decoded values of a response or of a caller's request (dynamically typed in the source).\<close>

datatype jsval =
    Undefined
  | Null
  | Bool bool
  | Num int
  | Str string
  | Arr "jsval list"
  | Obj "(string \<times> jsval) list"

text \<open>Whether a value counts as true in a condition.\<close>

fun truthy :: "jsval \<Rightarrow> bool" where
  "truthy Undefined = False"
| "truthy Null = False"
| "truthy (Bool b) = b"
| "truthy (Num n) = (n \<noteq> 0)"
| "truthy (Str s) = (s \<noteq> [])"
| "truthy (Arr xs) = True"
| "truthy (Obj kvs) = True"

text \<open>An object used as a record: its own properties in order, as an association list.\<close>

type_synonym jsobject = "(string \<times> jsval) list"

text \<open>
  A thrown error with the properties the broker inspects: \<^verbatim>\<open>name\<close>, \<^verbatim>\<open>type\<close>,
  \<^verbatim>\<open>message\<close>, \<^verbatim>\<open>memberId\<close> and \<^verbatim>\<open>retriable\<close>. A property that
  the error does not have is \<open>None\<close>.
\<close>

record js_error =
  err_name :: string
  err_type :: "string option"
  err_message :: string
  err_memberId :: "string option"
  err_retriable :: "bool option"

text \<open>\<^verbatim>\<open>new Error(message)\<close>\<close>

definition Error :: "string \<Rightarrow> js_error" where
  "Error msg = \<lparr>err_name = ''Error'', err_type = None, err_message = msg,
                err_memberId = None, err_retriable = None\<rparr>"

text \<open>What the runtime raises when a property of \<^verbatim>\<open>undefined\<close> is read or a non-function is called.\<close>

definition TypeError :: "string \<Rightarrow> js_error" where
  "TypeError msg = \<lparr>err_name = ''TypeError'', err_type = None, err_message = msg,
                    err_memberId = None, err_retriable = None\<rparr>"

text \<open>
  Modelled from the spec: the class \<^verbatim>\<open>KafkaJSNonRetriableError\<close> of errors.ts, which is
  not among the source files. The spec calls it the catch-all non-retriable error kind; it
  carries the message it is constructed with.
\<close>

definition KafkaJSNonRetriableError :: "string \<Rightarrow> js_error" where
  "KafkaJSNonRetriableError msg =
     \<lparr>err_name = ''KafkaJSNonRetriableError'', err_type = None, err_message = msg,
      err_memberId = None, err_retriable = Some False\<rparr>"

text \<open>The APIs whose methods are embedded here (the keys of \<^verbatim>\<open>requests\<close> and \<^verbatim>\<open>apiKeys\<close>).\<close>

datatype api = ApiVersions | Fetch | JoinGroup | ListOffsets | SaslAuthenticate

text \<open>
  The parameter object handed to a request factory. Parameters that the method passes on
  as it received them, possibly \<^verbatim>\<open>undefined\<close>, are \<open>jsval\<close>.
\<close>

datatype payload =
    ApiVersionsPayload
  | FetchPayload
      (fp_replicaId: jsval) (fp_isolationLevel: jsval) (fp_maxWaitTime: jsval)
      (fp_minBytes: jsval) (fp_maxBytes: jsval)
      (fp_topics: "(string \<times> jsval list) list") (fp_rackId: jsval)
  | JoinGroupPayload
      (jg_groupId: jsval) (jg_sessionTimeout: jsval) (jg_rebalanceTimeout: jsval)
      (jg_memberId: jsval) (jg_protocolType: jsval) (jg_groupProtocols: jsval)
  | ListOffsetsPayload (lo_replicaId: jsval) (lo_isolationLevel: jsval) (lo_topics: jsval)

text \<open>
  The request object given to \<^verbatim>\<open>connection.send\<close>: what the factory chosen for an API
  and a protocol version builds from its parameter object, and the \<^verbatim>\<open>requestTimeout\<close>
  that \<^verbatim>\<open>apiVersions\<close> adds.
\<close>

record request =
  apiKey :: int
  apiVersion :: nat
  apiName :: api
  params :: payload
  requestTimeout :: "int option"

text \<open>One row of the \<^verbatim>\<open>apiVersions\<close> table of an ApiVersions response.\<close>

record api_version =
  av_apiKey :: int
  av_minVersion :: int
  av_maxVersion :: int

text \<open>One entry of \<^verbatim>\<open>responses\<close> in a ListOffsets response.\<close>

record topic_offsets =
  to_topic :: string
  to_partitions :: "jsobject list"

text \<open>
  What \<^verbatim>\<open>connection.send\<close> resolves to: an object with the table \<^verbatim>\<open>apiVersions\<close>,
  an object with \<^verbatim>\<open>throttleTime\<close> and \<^verbatim>\<open>responses\<close>, or any other value, which has
  neither property.
\<close>

datatype response =
    ApiVersionsResponse "api_version list"
  | ListOffsetsResponse int "topic_offsets list"
  | OtherResponse jsval

text \<open>Whether a resolved value counts as true in a condition; an object always does.\<close>

fun response_truthy :: "response \<Rightarrow> bool" where
  "response_truthy (ApiVersionsResponse vs) = True"
| "response_truthy (ListOffsetsResponse throttleTime responses) = True"
| "response_truthy (OtherResponse v) = truthy v"

subsection \<open>The broker's fields and its collaborators\<close>

text \<open>The pair (seconds, nanoseconds) of \<^verbatim>\<open>process.hrtime\<close>.\<close>

type_synonym hrtime = "int \<times> int"

type_synonym versions_table = "int \<rightharpoonup> int \<times> int"

text \<open>
  \<^verbatim>\<open>lookupRequest\<close> is either the sentinel \<^verbatim>\<open>notInitializedLookup\<close> or the closure
  \<^verbatim>\<open>lookup(versions)\<close>.
\<close>

datatype lookup_fn = notInitializedLookup | lookup versions_table

record broker =
  nodeId :: "int option"
  versions :: "versions_table option"
  authenticationTimeout :: int
  reauthenticationThreshold :: int
  allowAutoTopicCreation :: bool
  supportAuthenticationProtocol :: "bool option"
  authenticatedAt :: "hrtime option"
  sessionLifetime :: int
  lookupRequest :: lookup_fn

text \<open>A call made to a collaborator.\<close>

datatype event =
    LockAcquire
  | LockRelease
  | ConnectionConnect
  | ConnectionDisconnect
  | ConnectionSend request
  | Authenticate

text \<open>
  The collaborators. \<open>connected\<close>, \<open>sasl\<close> and \<open>connectionTimeout\<close> are the fields
  of the connection that the broker reads (\<open>sasl\<close> is the truthiness of the configured
  SASL options); \<open>connection_connect\<close> to \<open>authenticate\<close> give the outcome of a call,
  \<open>None\<close> or \<open>Inr\<close> when it returns and the raised error otherwise (for
  \<open>authenticate\<close> the session lifetime that the authenticator holds afterwards);
  \<open>hrtime_now\<close> is the reading of the monotonic clock and \<open>shuffle\<close> the outcome of
  the random shuffle of utils/shuffle.ts. \<open>apiKeys\<close> and \<open>requests_versions\<close> are the
  tables of protocol/requests, which are not among the source files: the key of each API
  and the list \<^verbatim>\<open>versions\<close> of the protocol versions implemented for it.
\<close>

record env =
  connected :: "event list \<Rightarrow> bool"
  sasl :: bool
  connectionTimeout :: int
  connection_connect :: "event list \<Rightarrow> js_error option"
  connection_disconnect :: "event list \<Rightarrow> js_error option"
  connection_send :: "event list \<Rightarrow> request \<Rightarrow> js_error + response"
  lock_acquire :: "event list \<Rightarrow> js_error option"
  lock_release :: "event list \<Rightarrow> js_error option"
  authenticate :: "event list \<Rightarrow> versions_table option \<Rightarrow> bool option \<Rightarrow> js_error + int"
  hrtime_now :: "event list \<Rightarrow> hrtime"
  shuffle :: "event list \<Rightarrow> (string \<times> jsval) list \<Rightarrow> (string \<times> jsval) list"
  apiKeys :: "api \<Rightarrow> int"
  requests_versions :: "api \<Rightarrow> nat list"

text \<open>The state threaded through every method: the broker's fields and the history of calls.\<close>

type_synonym world = "broker \<times> event list"

text \<open>The constructor, with the defaults of its options.\<close>

definition new_Broker ::
  "int option \<Rightarrow> versions_table option \<Rightarrow> int option \<Rightarrow> int option \<Rightarrow> bool option \<Rightarrow>
   bool option \<Rightarrow> broker" where
  "new_Broker nodeId' versions' authenticationTimeout' reauthenticationThreshold'
     allowAutoTopicCreation' supportAuthenticationProtocol' =
     \<lparr>nodeId = nodeId',
      versions = versions',
      authenticationTimeout = (case authenticationTimeout' of None \<Rightarrow> 1000 | Some t \<Rightarrow> t),
      reauthenticationThreshold =
        (case reauthenticationThreshold' of None \<Rightarrow> 10000 | Some t \<Rightarrow> t),
      allowAutoTopicCreation = (case allowAutoTopicCreation' of None \<Rightarrow> True | Some a \<Rightarrow> a),
      supportAuthenticationProtocol = supportAuthenticationProtocol',
      authenticatedAt = None,
      sessionLifetime = 0,
      lookupRequest = notInitializedLookup\<rparr>"

subsection \<open>Session lifetime and \<^verbatim>\<open>isConnected\<close>\<close>

text \<open>
  \<^verbatim>\<open>process.hrtime(time)\<close> of the runtime: the clock's reading minus \<open>time\<close>, with
  a borrow so that the nanoseconds stay non-negative.
\<close>

definition hrtime_since :: "hrtime \<Rightarrow> hrtime \<Rightarrow> hrtime" where
  "hrtime_since now time =
     (let sec = fst now - fst time; nsec = snd now - snd time
      in if nsec < 0 then (sec - 1, nsec + 1000000000) else (sec, nsec))"

text \<open>
  \<^verbatim>\<open>Long.divide\<close> of utils/long.ts, a class over arbitrary-precision integers that is not
  among the source files: the quotient rounded towards zero. \<^verbatim>\<open>add\<close>, \<^verbatim>\<open>multiply\<close>,
  \<^verbatim>\<open>equals\<close> and \<^verbatim>\<open>greaterThanOrEqual\<close> are the operations of \<open>int\<close>.
\<close>

definition Long_divide :: "int \<Rightarrow> int \<Rightarrow> int" where
  "Long_divide a b =
     (if (a < 0) = (b < 0) then \<bar>a\<bar> div \<bar>b\<bar> else - (\<bar>a\<bar> div \<bar>b\<bar>))"

text \<open>The local \<^verbatim>\<open>millisSince\<close> of the re-authentication predicate.\<close>

definition millisSince :: "hrtime \<Rightarrow> hrtime \<Rightarrow> int" where
  "millisSince now time =
     (let (secondsSince, remainingNanosSince) = hrtime_since now time
      in secondsSince * 1000 + Long_divide remainingNanosSince 1000000)"

text \<open>\<^verbatim>\<open>Broker[PRIVATE.SHOULD_REAUTHENTICATE]\<close>\<close>

definition shouldReauthenticate :: "env \<Rightarrow> world \<Rightarrow> bool" where
  "shouldReauthenticate E w =
     (let b = fst w in
      if sessionLifetime b = 0 then False
      else case authenticatedAt b of
          None \<Rightarrow> True
        | Some time \<Rightarrow>
            (let reauthenticateAt = millisSince (hrtime_now E (snd w)) time
                                      + reauthenticationThreshold b
             in reauthenticateAt \<ge> sessionLifetime b))"

text \<open>\<^verbatim>\<open>Broker.isConnected\<close>\<close>

definition isConnected :: "env \<Rightarrow> world \<Rightarrow> bool" where
  "isConnected E w =
     (let isAuthenticated = (authenticatedAt (fst w) \<noteq> None \<and> \<not> shouldReauthenticate E w)
      in if sasl E then connected E (snd w) \<and> isAuthenticated else connected E (snd w))"

subsection \<open>\<^verbatim>\<open>disconnect\<close> and the internal send path\<close>

text \<open>\<^verbatim>\<open>Broker.disconnect\<close>\<close>

definition disconnect :: "env \<Rightarrow> world \<Rightarrow> (js_error + unit) \<times> world" where
  "disconnect E w =
     (let b = (fst w)\<lparr>authenticatedAt := None\<rparr>
      in case connection_disconnect E (snd w) of
          Some e \<Rightarrow> (Inl e, (b, snd w @ [ConnectionDisconnect]))
        | None \<Rightarrow> (Inr (), (b, snd w @ [ConnectionDisconnect])))"

text \<open>\<^verbatim>\<open>Broker[PRIVATE.SEND_REQUEST]\<close>\<close>

definition sendRequest :: "env \<Rightarrow> world \<Rightarrow> request \<Rightarrow> (js_error + response) \<times> world" where
  "sendRequest E w protocolRequest =
     (let w1 = (fst w, snd w @ [ConnectionSend protocolRequest])
      in case connection_send E (snd w) protocolRequest of
          Inr r \<Rightarrow> (Inr r, w1)
        | Inl e \<Rightarrow>
            if err_name e = ''KafkaJSConnectionClosedError''
            then (case disconnect E w1 of
                    (Inl e', w2) \<Rightarrow> (Inl e', w2)
                  | (Inr _, w2) \<Rightarrow> (Inl e, w2))
            else (Inl e, w1))"

subsection \<open>Request lookup\<close>

text \<open>
  Modelled from the spec: the function \<^verbatim>\<open>lookup\<close> of protocol/requests, which is not
  among the source files. Given the negotiated table and an API, it selects the highest
  implemented version \<open>V\<close> with \<open>minVersion \<le> V \<le> maxVersion\<close> for the API's key; if
  there is none it fails with the error kind \<^verbatim>\<open>UNSUPPORTED_VERSION\<close>.
\<close>

text \<open>An error of that kind; the spec fixes its \<^verbatim>\<open>type\<close> only.\<close>

definition UnsupportedVersion :: js_error where
  "UnsupportedVersion =
     \<lparr>err_name = ''KafkaJSNonRetriableError'', err_type = Some ''UNSUPPORTED_VERSION'',
      err_message = ''unsupported version'', err_memberId = None, err_retriable = Some False\<rparr>"

definition lookup_select :: "env \<Rightarrow> versions_table \<Rightarrow> api \<Rightarrow> js_error + nat" where
  "lookup_select E vt a =
     (case vt (apiKeys E a) of
        None \<Rightarrow> Inl UnsupportedVersion
      | Some (minVersion, maxVersion) \<Rightarrow>
          (case filter (\<lambda>V. minVersion \<le> int V \<and> int V \<le> maxVersion) (requests_versions E a) of
             [] \<Rightarrow> Inl UnsupportedVersion
           | V # Vs \<Rightarrow> Inr (fold max Vs V)))"

text \<open>
  Calling \<^verbatim>\<open>this.lookupRequest(apiKeys.X, requests.X)\<close>: the sentinel
  \<^verbatim>\<open>notInitializedLookup\<close> throws, the closure selects a version.
\<close>

definition call_lookupRequest :: "env \<Rightarrow> broker \<Rightarrow> api \<Rightarrow> js_error + nat" where
  "call_lookupRequest E b a =
     (case lookupRequest b of
        notInitializedLookup \<Rightarrow> Inl (Error ''Broker not connected'')
      | lookup vt \<Rightarrow> lookup_select E vt a)"

text \<open>
  The request that the factory of API \<open>a\<close> at version \<open>v\<close> builds from its parameter
  object (\<^verbatim>\<open>requests.X.protocol({ version })(params)\<close>).
\<close>

definition protocol :: "env \<Rightarrow> api \<Rightarrow> nat \<Rightarrow> payload \<Rightarrow> request" where
  "protocol E a v p =
     \<lparr>apiKey = apiKeys E a, apiVersion = v, apiName = a, params = p, requestTimeout = None\<rparr>"

subsection \<open>\<^verbatim>\<open>apiVersions\<close>\<close>

text \<open>The decimal numeral of a version number, as \<^verbatim>\<open>String\<close> gives it.\<close>

fun Number_toString :: "nat \<Rightarrow> string" where
  "Number_toString n =
     (if n < 10 then [''0123456789'' ! n]
      else Number_toString (n div 10) @ [''0123456789'' ! (n mod 10)])"

declare Number_toString.simps [simp del]

text \<open>
  \<^verbatim>\<open>Array.prototype.sort\<close> without a comparison function: the elements are ordered by
  their string conversions, compared code unit by code unit.
\<close>

definition Array_sort :: "nat list \<Rightarrow> nat list" where
  "Array_sort xs = sort_key Number_toString xs"

text \<open>
  The local \<^verbatim>\<open>availableVersions\<close>:
  \<^verbatim>\<open>requests.ApiVersions.versions.map(Number).sort().reverse()\<close>.
\<close>

definition availableVersions :: "env \<Rightarrow> nat list" where
  "availableVersions E = rev (Array_sort (requests_versions E ApiVersions))"

text \<open>The request built for one candidate version.\<close>

definition apiVersions_request :: "env \<Rightarrow> nat \<Rightarrow> request" where
  "apiVersions_request E candidateVersion =
     (protocol E ApiVersions candidateVersion ApiVersionsPayload)
       \<lparr>requestTimeout := Some (connectionTimeout E)\<rparr>"

text \<open>
  The loop over the candidates. The result is the local \<^verbatim>\<open>response\<close> when the loop
  is left (\<open>None\<close> while it is unset), or the error that the loop re-raises.
\<close>

fun apiVersions_loop ::
  "env \<Rightarrow> world \<Rightarrow> nat list \<Rightarrow> (js_error + response option) \<times> world" where
  "apiVersions_loop E w [] = (Inr None, w)"
| "apiVersions_loop E w (candidateVersion # rest) =
     (case sendRequest E w (apiVersions_request E candidateVersion) of
        (Inr response, w') \<Rightarrow> (Inr (Some response), w')
      | (Inl e, w') \<Rightarrow>
          if err_type e \<noteq> Some ''UNSUPPORTED_VERSION'' then (Inl e, w')
          else apiVersions_loop E w' rest)"

text \<open>The reduction of the response's table to an object keyed by API key.\<close>

definition reduce_apiVersions :: "api_version list \<Rightarrow> versions_table" where
  "reduce_apiVersions vs =
     foldl (\<lambda>obj version. obj(av_apiKey version \<mapsto> (av_minVersion version, av_maxVersion version)))
       Map.empty vs"

text \<open>
  \<^verbatim>\<open>Broker.apiVersions\<close>. The test \<^verbatim>\<open>if (!response)\<close> after the loop fails both when
  the loop never set \<^verbatim>\<open>response\<close> and when a send resolved to a value that counts as
  false.
\<close>

definition apiVersions :: "env \<Rightarrow> world \<Rightarrow> (js_error + versions_table) \<times> world" where
  "apiVersions E w =
     (case apiVersions_loop E w (availableVersions E) of
        (Inl e, w') \<Rightarrow> (Inl e, w')
      | (Inr None, w') \<Rightarrow> (Inl (KafkaJSNonRetriableError ''API Versions not supported''), w')
      | (Inr (Some response), w') \<Rightarrow>
          if \<not> response_truthy response
          then (Inl (KafkaJSNonRetriableError ''API Versions not supported''), w')
          else (case response of
                  ApiVersionsResponse vs \<Rightarrow> (Inr (reduce_apiVersions vs), w')
                | _ \<Rightarrow> (Inl (TypeError ''Cannot read properties of undefined''), w')))"

subsection \<open>\<^verbatim>\<open>connect\<close>\<close>

text \<open>
  The first statements of the \<^verbatim>\<open>try\<close> block that need the network: the versions table
  is negotiated only when the broker has none.
\<close>

definition connect_versions :: "env \<Rightarrow> world \<Rightarrow> (js_error + versions_table) \<times> world" where
  "connect_versions E w =
     (case versions (fst w) of
        None \<Rightarrow>
          (case apiVersions E w of
             (Inl e, w') \<Rightarrow> (Inl e, w')
           | (Inr vt, w') \<Rightarrow> (Inr vt, ((fst w')\<lparr>versions := Some vt\<rparr>, snd w')))
      | Some vt \<Rightarrow> (Inr vt, w))"

text \<open>The probe that settles \<^verbatim>\<open>supportAuthenticationProtocol\<close> when it is still unknown.\<close>

definition connect_probe :: "env \<Rightarrow> broker \<Rightarrow> broker" where
  "connect_probe E b =
     (if supportAuthenticationProtocol b = None
      then (case call_lookupRequest E b SaslAuthenticate of
              Inr _ \<Rightarrow> b\<lparr>supportAuthenticationProtocol := Some True\<rparr>
            | Inl _ \<Rightarrow> b\<lparr>supportAuthenticationProtocol := Some False\<rparr>)
      else b)"

text \<open>The SASL exchange at the end of the \<^verbatim>\<open>try\<close> block.\<close>

definition connect_authenticate :: "env \<Rightarrow> world \<Rightarrow> (js_error + unit) \<times> world" where
  "connect_authenticate E w =
     (let b = fst w in
      if authenticatedAt b = None \<and> sasl E
      then (let log' = snd w @ [Authenticate] in
            case authenticate E (snd w) (versions b) (supportAuthenticationProtocol b) of
              Inl e \<Rightarrow> (Inl e, (b, log'))
            | Inr lifetime \<Rightarrow>
                (Inr (), (b\<lparr>authenticatedAt := Some (hrtime_now E log'),
                            sessionLifetime := lifetime\<rparr>, log')))
      else (Inr (), w))"

text \<open>The body of the \<^verbatim>\<open>try\<close> block of \<^verbatim>\<open>connect\<close>.\<close>

definition connect_try :: "env \<Rightarrow> world \<Rightarrow> (js_error + unit) \<times> world" where
  "connect_try E w =
     (let w1 = (fst w, snd w @ [LockAcquire]) in
      case lock_acquire E (snd w) of
        Some e \<Rightarrow> (Inl e, w1)
      | None \<Rightarrow>
          if isConnected E w1 then (Inr (), w1)
          else
            (let w2 = ((fst w1)\<lparr>authenticatedAt := None\<rparr>, snd w1 @ [ConnectionConnect]) in
             case connection_connect E (snd w1) of
               Some e \<Rightarrow> (Inl e, w2)
             | None \<Rightarrow>
                 (case connect_versions E w2 of
                    (Inl e, w3) \<Rightarrow> (Inl e, w3)
                  | (Inr vt, w3) \<Rightarrow>
                      connect_authenticate E
                        (connect_probe E ((fst w3)\<lparr>lookupRequest := lookup vt\<rparr>), snd w3))))"

text \<open>
  \<^verbatim>\<open>Broker.connect\<close>: the \<^verbatim>\<open>try\<close> block, then the release of the lock in
  \<^verbatim>\<open>finally\<close>, whose own failure replaces the outcome of the block.
\<close>

definition connect :: "env \<Rightarrow> world \<Rightarrow> (js_error + unit) \<times> world" where
  "connect E w =
     (case connect_try E w of
        (r, w') \<Rightarrow>
          (case lock_release E (snd w') of
             Some e \<Rightarrow> (Inl e, (fst w', snd w' @ [LockRelease]))
           | None \<Rightarrow> (r, (fst w', snd w' @ [LockRelease]))))"

subsection \<open>\<^verbatim>\<open>joinGroup\<close>\<close>

text \<open>A default parameter value: it applies when the argument is \<^verbatim>\<open>undefined\<close>.\<close>

definition default_to :: "jsval \<Rightarrow> jsval \<Rightarrow> jsval" where
  "default_to d v = (if v = Undefined then d else v)"

record joinGroup_args =
  ja_groupId :: jsval
  ja_sessionTimeout :: jsval
  ja_rebalanceTimeout :: jsval
  ja_memberId :: jsval
  ja_protocolType :: jsval
  ja_groupProtocols :: jsval

text \<open>
  The request that the local \<^verbatim>\<open>makeRequest\<close> sends: \<open>assignedMemberId\<close> defaults
  to the method's (defaulted) \<^verbatim>\<open>memberId\<close>.
\<close>

definition joinGroup_request :: "env \<Rightarrow> nat \<Rightarrow> joinGroup_args \<Rightarrow> jsval \<Rightarrow> request" where
  "joinGroup_request E v args assignedMemberId =
     protocol E JoinGroup v
       (JoinGroupPayload (ja_groupId args) (ja_sessionTimeout args) (ja_rebalanceTimeout args)
          (default_to (default_to (Str []) (ja_memberId args)) assignedMemberId)
          (default_to (Str ''consumer'') (ja_protocolType args)) (ja_groupProtocols args))"

text \<open>The property \<^verbatim>\<open>memberId\<close> of a caught error as a value.\<close>

definition error_memberId :: "js_error \<Rightarrow> jsval" where
  "error_memberId e = (case err_memberId e of None \<Rightarrow> Undefined | Some m \<Rightarrow> Str m)"

text \<open>\<^verbatim>\<open>Broker.joinGroup\<close>\<close>

definition joinGroup :: "env \<Rightarrow> world \<Rightarrow> joinGroup_args \<Rightarrow> (js_error + response) \<times> world" where
  "joinGroup E w args =
     (case call_lookupRequest E (fst w) JoinGroup of
        Inl e \<Rightarrow> (Inl e, w)
      | Inr v \<Rightarrow>
          (case sendRequest E w (joinGroup_request E v args Undefined) of
             (Inr r, w') \<Rightarrow> (Inr r, w')
           | (Inl error, w') \<Rightarrow>
               if err_name error = ''KafkaJSMemberIdRequired''
               then sendRequest E w' (joinGroup_request E v args (error_memberId error))
               else (Inl error, w')))"

subsection \<open>\<^verbatim>\<open>fetch\<close>\<close>

record fetch_args =
  fa_replicaId :: jsval
  fa_isolationLevel :: jsval
  fa_maxWaitTime :: jsval
  fa_minBytes :: jsval
  fa_maxBytes :: jsval
  fa_topics :: "(string \<times> jsval list) list"
  fa_rackId :: jsval

text \<open>The local \<^verbatim>\<open>flattenedTopicPartitions\<close>: one pair for every partition of every entry.\<close>

definition flattenedTopicPartitions :: "(string \<times> 'p list) list \<Rightarrow> (string \<times> 'p) list" where
  "flattenedTopicPartitions topics =
     foldl (\<lambda>topicPartitions (topic, partitions).
              foldl (\<lambda>acc partition'. acc @ [(topic, partition')]) topicPartitions partitions)
       [] topics"

text \<open>One step of the reduction that builds \<^verbatim>\<open>consolidatedTopicPartitions\<close>.\<close>

definition consolidate_step ::
  "(string \<times> 'p list) list \<Rightarrow> string \<times> 'p \<Rightarrow> (string \<times> 'p list) list" where
  "consolidate_step topicPartitions tp =
     (case tp of (topic, partition') \<Rightarrow>
        if topicPartitions \<noteq> [] \<and> fst (last topicPartitions) = topic
        then butlast topicPartitions
               @ [(fst (last topicPartitions), snd (last topicPartitions) @ [partition'])]
        else topicPartitions @ [(topic, [partition'])])"

definition consolidatedTopicPartitions :: "(string \<times> 'p) list \<Rightarrow> (string \<times> 'p list) list" where
  "consolidatedTopicPartitions shuffledTopicPartitions =
     foldl consolidate_step [] shuffledTopicPartitions"

text \<open>The request that \<^verbatim>\<open>fetch\<close> sends when the lookup selects version \<open>v\<close>.\<close>

definition fetch_request :: "env \<Rightarrow> event list \<Rightarrow> nat \<Rightarrow> fetch_args \<Rightarrow> request" where
  "fetch_request E log v args =
     (let shuffledTopicPartitions = shuffle E log (flattenedTopicPartitions (fa_topics args))
      in protocol E Fetch v
           (FetchPayload (fa_replicaId args) (fa_isolationLevel args)
              (default_to (Num 5000) (fa_maxWaitTime args))
              (default_to (Num 1) (fa_minBytes args))
              (default_to (Num 10485760) (fa_maxBytes args))
              (consolidatedTopicPartitions shuffledTopicPartitions)
              (default_to (Str []) (fa_rackId args))))"

text \<open>\<^verbatim>\<open>Broker.fetch\<close>\<close>

definition fetch :: "env \<Rightarrow> world \<Rightarrow> fetch_args \<Rightarrow> (js_error + response) \<times> world" where
  "fetch E w args =
     (case call_lookupRequest E (fst w) Fetch of
        Inl e \<Rightarrow> (Inl e, w)
      | Inr v \<Rightarrow> sendRequest E w (fetch_request E (snd w) v args))"

subsection \<open>\<^verbatim>\<open>listOffsets\<close>\<close>

text \<open>\<^verbatim>\<open>Array.prototype.pop\<close>: the last element, \<^verbatim>\<open>undefined\<close> for an empty array.\<close>

definition Array_pop :: "jsval list \<Rightarrow> jsval" where
  "Array_pop xs = (if xs = [] then Undefined else last xs)"

text \<open>
  The function mapped over the partitions of a response: \<^verbatim>\<open>offsets\<close> is the property
  of that name (\<open>None\<close> when the record has none) and \<^verbatim>\<open>partitionData\<close> the record
  without it. Calling \<^verbatim>\<open>pop\<close> on a value that is true but no array raises.
\<close>

definition normalizePartition :: "jsobject \<Rightarrow> js_error + jsobject" where
  "normalizePartition p =
     (let offsets = map_of p ''offsets''; partitionData = AList.delete ''offsets'' p
      in case offsets of
           None \<Rightarrow> Inr partitionData
         | Some v \<Rightarrow>
             if truthy v
             then (case v of
                     Arr xs \<Rightarrow> Inr (AList.update ''offset'' (Array_pop xs) partitionData)
                   | _ \<Rightarrow> Inl (TypeError ''offsets.pop is not a function''))
             else Inr partitionData)"

text \<open>\<^verbatim>\<open>Array.prototype.map\<close> with a callback that may raise: the first error ends it.\<close>

fun map_raising :: "('a \<Rightarrow> js_error + 'b) \<Rightarrow> 'a list \<Rightarrow> js_error + 'b list" where
  "map_raising f [] = Inr []"
| "map_raising f (x # xs) =
     (case f x of
        Inl e \<Rightarrow> Inl e
      | Inr y \<Rightarrow> (case map_raising f xs of Inl e \<Rightarrow> Inl e | Inr ys \<Rightarrow> Inr (y # ys)))"

text \<open>The body of the loop over \<^verbatim>\<open>result.responses\<close>.\<close>

definition normalizeResponse :: "topic_offsets \<Rightarrow> js_error + topic_offsets" where
  "normalizeResponse response =
     (case map_raising normalizePartition (to_partitions response) of
        Inl e \<Rightarrow> Inl e
      | Inr ps \<Rightarrow> Inr (response\<lparr>to_partitions := ps\<rparr>))"

record listOffsets_args =
  la_replicaId :: jsval
  la_isolationLevel :: jsval
  la_topics :: jsval

definition listOffsets_request :: "env \<Rightarrow> nat \<Rightarrow> listOffsets_args \<Rightarrow> request" where
  "listOffsets_request E v args =
     protocol E ListOffsets v
       (ListOffsetsPayload (la_replicaId args) (la_isolationLevel args) (la_topics args))"

text \<open>\<^verbatim>\<open>Broker.listOffsets\<close>\<close>

definition listOffsets ::
  "env \<Rightarrow> world \<Rightarrow> listOffsets_args \<Rightarrow> (js_error + response) \<times> world" where
  "listOffsets E w args =
     (case call_lookupRequest E (fst w) ListOffsets of
        Inl e \<Rightarrow> (Inl e, w)
      | Inr v \<Rightarrow>
          (case sendRequest E w (listOffsets_request E v args) of
             (Inl e, w') \<Rightarrow> (Inl e, w')
           | (Inr result, w') \<Rightarrow>
               (case result of
                  ListOffsetsResponse throttleTime responses \<Rightarrow>
                    (case map_raising normalizeResponse responses of
                       Inl e \<Rightarrow> (Inl e, w')
                     | Inr rs \<Rightarrow> (Inr (ListOffsetsResponse throttleTime rs), w'))
                | _ \<Rightarrow> (Inl (TypeError ''result.responses is not iterable''), w'))))"

subsection \<open>Concrete brokers and environments\<close>

text \<open>The requests that a history shows to have been given to \<^verbatim>\<open>connection.send\<close>, in order.\<close>

definition sent_requests :: "event list \<Rightarrow> request list" where
  "sent_requests log = concat (map (\<lambda>ev. case ev of ConnectionSend r \<Rightarrow> [r] | _ \<Rightarrow> []) log)"

text \<open>The keys of the Kafka protocol for the embedded APIs.\<close>

definition apiKeys0 :: "api \<Rightarrow> int" where
  "apiKeys0 a = (case a of ApiVersions \<Rightarrow> 18 | Fetch \<Rightarrow> 1 | JoinGroup \<Rightarrow> 11
                  | ListOffsets \<Rightarrow> 2 | SaslAuthenticate \<Rightarrow> 36)"

text \<open>
  A connection with SASL configured whose transport is up and whose every call succeeds;
  the clock stands at 100 seconds.
\<close>

definition env0 :: env where
  "env0 = \<lparr>connected = (\<lambda>log. True), sasl = True, connectionTimeout = 1000,
      connection_connect = (\<lambda>log. None), connection_disconnect = (\<lambda>log. None),
      connection_send = (\<lambda>log r. Inr (OtherResponse Null)),
      lock_acquire = (\<lambda>log. None), lock_release = (\<lambda>log. None),
      authenticate = (\<lambda>log vt s. Inr 60000),
      hrtime_now = (\<lambda>log. (100, 0)),
      shuffle = (\<lambda>log xs. rev xs),
      apiKeys = apiKeys0,
      requests_versions = (\<lambda>a. [0, 1, 2])\<rparr>"

text \<open>A broker as the constructor leaves it, with every option at its default.\<close>

definition broker0 :: broker where
  "broker0 = new_Broker None None None None None None"

text \<open>A broker authenticated at second 60 for a session of 60000 ms.\<close>

definition broker_authenticated :: broker where
  "broker_authenticated = broker0\<lparr>authenticatedAt := Some (60, 0), sessionLifetime := 60000\<rparr>"

definition ConnectionClosedError :: js_error where
  "ConnectionClosedError =
     \<lparr>err_name = ''KafkaJSConnectionClosedError'', err_type = None,
      err_message = ''Closed connection'', err_memberId = None, err_retriable = Some True\<rparr>"

definition RequestTimeoutError :: js_error where
  "RequestTimeoutError =
     \<lparr>err_name = ''KafkaJSRequestTimeoutError'', err_type = None,
      err_message = ''Request timed out'', err_memberId = None, err_retriable = Some True\<rparr>"

text \<open>A connection whose every send finds the connection closed.\<close>

definition env_closed :: env where
  "env_closed = env0\<lparr>connection_send := (\<lambda>log r. Inl ConnectionClosedError)\<rparr>"

text \<open>The same, and the connection's own \<^verbatim>\<open>disconnect\<close> fails too.\<close>

definition env_closed_failing_disconnect :: env where
  "env_closed_failing_disconnect =
     env_closed\<lparr>connection_disconnect := (\<lambda>log. Some (Error ''socket already destroyed''))\<rparr>"

text \<open>A connection whose every send times out.\<close>

definition env_timeout :: env where
  "env_timeout = env0\<lparr>connection_send := (\<lambda>log r. Inl RequestTimeoutError)\<rparr>"

text \<open>A negotiated versions table, and a broker that holds it as \<open>connect\<close> leaves it.\<close>

definition versions0 :: versions_table where
  "versions0 = map_of [(1, (0, 11)), (2, (0, 5)), (11, (0, 7)), (18, (0, 3)), (36, (0, 2))]"

definition broker_connected :: broker where
  "broker_connected =
     broker0\<lparr>versions := Some versions0, supportAuthenticationProtocol := Some True,
             lookupRequest := lookup versions0\<rparr>"

text \<open>
  A server that implements ApiVersions up to version 2 and answers every other request;
  the client implements the versions 0 to 3 of ApiVersions.
\<close>

definition apiVersions_rows :: "api_version list" where
  "apiVersions_rows =
     [\<lparr>av_apiKey = 1, av_minVersion = 0, av_maxVersion = 11\<rparr>,
      \<lparr>av_apiKey = 18, av_minVersion = 0, av_maxVersion = 2\<rparr>,
      \<lparr>av_apiKey = 36, av_minVersion = 0, av_maxVersion = 1\<rparr>]"

definition env_server :: env where
  "env_server =
     env0\<lparr>connected := (\<lambda>log. ConnectionConnect \<in> set log),
          requests_versions := (\<lambda>a. if a = ApiVersions then [0, 1, 2, 3] else [0, 1, 2]),
          connection_send := (\<lambda>log r.
            if apiName r = ApiVersions
            then (if apiVersion r \<le> 2 then Inr (ApiVersionsResponse apiVersions_rows)
                  else Inl UnsupportedVersion)
            else Inr (OtherResponse Null))\<rparr>"

text \<open>A client whose table of ApiVersions versions holds 2 and 10; the server rejects both.\<close>

definition env_two_ten :: env where
  "env_two_ten =
     env0\<lparr>requests_versions := (\<lambda>a. [2, 10]),
          connection_send := (\<lambda>log r. Inl UnsupportedVersion)\<rparr>"

text \<open>A connection without SASL whose transport is already up.\<close>

definition env_plain :: env where
  "env_plain = env0\<lparr>sasl := False\<rparr>"

text \<open>
  A connection without SASL whose transport is up once \<^verbatim>\<open>connection.connect\<close> has been
  called, and on which every request times out.
\<close>

definition env_negotiation_timeout :: env where
  "env_negotiation_timeout =
     env0\<lparr>sasl := False,
          connected := (\<lambda>log. ConnectionConnect \<in> set log),
          connection_send := (\<lambda>log r. Inl RequestTimeoutError)\<rparr>"

text \<open>
  A group coordinator that answers the first JoinGroup request with the typed error
  carrying the member id \<open>m-7\<close>, and accepts the second.
\<close>

definition MemberIdRequired :: js_error where
  "MemberIdRequired =
     \<lparr>err_name = ''KafkaJSMemberIdRequired'', err_type = Some ''MEMBER_ID_REQUIRED'',
      err_message = ''The group member needs to have a valid member id'',
      err_memberId = Some ''m-7'', err_retriable = Some True\<rparr>"

definition env_member_id :: env where
  "env_member_id =
     env0\<lparr>connection_send := (\<lambda>log r.
            if sent_requests log = [] then Inl MemberIdRequired else Inr (OtherResponse Null))\<rparr>"

definition joinGroup_args0 :: joinGroup_args where
  "joinGroup_args0 =
     \<lparr>ja_groupId = Str ''g'', ja_sessionTimeout = Num 30000, ja_rebalanceTimeout = Num 60000,
      ja_memberId = Undefined, ja_protocolType = Undefined, ja_groupProtocols = Arr []\<rparr>"

text \<open>A fetch of two partitions of topic \<open>t\<close> and one of topic \<open>u\<close>.\<close>

definition fetch_args0 :: fetch_args where
  "fetch_args0 =
     \<lparr>fa_replicaId = Num (- 1), fa_isolationLevel = Num 1, fa_maxWaitTime = Undefined,
      fa_minBytes = Undefined, fa_maxBytes = Undefined,
      fa_topics = [(''t'', [Num 0, Num 1]), (''u'', [Num 2])],
      fa_rackId = Undefined\<rparr>"

text \<open>
  A ListOffsets response with one partition in the form of version 0 (an array
  \<^verbatim>\<open>offsets\<close>) and one in the later form (a single \<^verbatim>\<open>offset\<close>).
\<close>

definition listOffsets_response0 :: response where
  "listOffsets_response0 =
     ListOffsetsResponse 0
       [\<lparr>to_topic = ''t'',
         to_partitions =
           [[(''partition'', Num 0), (''errorCode'', Num 0),
             (''offsets'', Arr [Str ''3'', Str ''7''])],
            [(''partition'', Num 1), (''errorCode'', Num 0), (''offset'', Str ''42'')]]\<rparr>]"

definition env_offsets :: env where
  "env_offsets = env0\<lparr>connection_send := (\<lambda>log r. Inr listOffsets_response0)\<rparr>"

definition listOffsets_args0 :: listOffsets_args where
  "listOffsets_args0 =
     \<lparr>la_replicaId = Num (- 1), la_isolationLevel = Num 1, la_topics = Arr []\<rparr>"

subsection \<open>The vocabulary of the properties\<close>


text \<open>
  What the normalisation of ListOffsets promises for a partition record \<open>p\<close> and the
  record \<open>p'\<close> returned for it: a record without \<^verbatim>\<open>offsets\<close> is returned as it is; a
  record with an array \<^verbatim>\<open>offsets\<close> loses that property, has \<^verbatim>\<open>offset\<close> equal to
  the last element of the array (\<^verbatim>\<open>undefined\<close> if the array is empty) and keeps every
  other property. A record whose \<^verbatim>\<open>offsets\<close> is no array is returned only if the value
  counts as false, and then without it.
\<close>

definition offsets_normalised :: "jsobject \<Rightarrow> jsobject \<Rightarrow> bool" where
  "offsets_normalised p p' =
     (case map_of p ''offsets'' of
        None \<Rightarrow> p' = p
      | Some v \<Rightarrow>
          (case v of
             Arr xs \<Rightarrow>
               map_of p' ''offsets'' = None
               \<and> map_of p' ''offset'' = Some (if xs = [] then Undefined else last xs)
               \<and> (\<forall>k. k \<noteq> ''offsets'' \<and> k \<noteq> ''offset'' \<longrightarrow> map_of p' k = map_of p k)
           | _ \<Rightarrow> \<not> truthy v \<and> p' = AList.delete ''offsets'' p))"

definition response_normalised :: "topic_offsets \<Rightarrow> topic_offsets \<Rightarrow> bool" where
  "response_normalised r r' =
     (to_topic r' = to_topic r
      \<and> list_all2 offsets_normalised (to_partitions r) (to_partitions r'))"

section \<open>Properties\<close>

subsection \<open>Session lifetime\<close>

lemma Long_divide_nonneg: "0 \<le> a \<Longrightarrow> 0 < b \<Longrightarrow> Long_divide a b = a div b"
  by (simp add: Long_divide_def)

lemma millis_of_nanos: "s * 1000 + n div 1000000 = (s * 1000000000 + n) div (1000000::int)"
proof -
  have "(s * 1000000000 + n) div 1000000 = (n + (s * 1000) * 1000000) div 1000000"
    by simp
  also have "\<dots> = s * 1000 + n div 1000000"
    by simp
  finally show ?thesis by simp
qed

text \<open>
  For readings of the clock (nanoseconds between 0 and a second), \<open>millisSince\<close> is the
  number of whole milliseconds between the two readings.
\<close>

lemma millisSince_nanoseconds:
  assumes "0 \<le> snd time" "snd time < 1000000000" "0 \<le> snd now" "snd now < 1000000000"
  shows "millisSince now time
         = ((fst now * 1000000000 + snd now) - (fst time * 1000000000 + snd time)) div 1000000"
proof (cases "snd now - snd time < 0")
  case True
  then have "millisSince now time
     = (fst now - fst time - 1) * 1000 + (snd now - snd time + 1000000000) div 1000000"
    using assms by (simp add: millisSince_def hrtime_since_def Let_def Long_divide_nonneg)
  also have "\<dots> = ((fst now - fst time - 1) * 1000000000
                     + (snd now - snd time + 1000000000)) div 1000000"
    by (rule millis_of_nanos)
  finally show ?thesis by (simp add: algebra_simps)
next
  case False
  then have "millisSince now time
     = (fst now - fst time) * 1000 + (snd now - snd time) div 1000000"
    using assms by (simp add: millisSince_def hrtime_since_def Let_def Long_divide_nonneg)
  also have "\<dots> = ((fst now - fst time) * 1000000000 + (snd now - snd time)) div 1000000"
    by (rule millis_of_nanos)
  finally show ?thesis by (simp add: algebra_simps)
qed

text \<open>
  C2. The re-authentication predicate is false when \<open>sessionLifetime\<close> is 0; otherwise it
  is true when \<open>authenticatedAt\<close> is unset; otherwise, with the elapsed milliseconds since
  \<open>authenticatedAt\<close> on the monotonic clock, it is true exactly when the elapsed time plus
  \<open>reauthenticationThreshold\<close> is at least \<open>sessionLifetime\<close>. The elapsed time is
  \<open>millisSince\<close>, the whole milliseconds between the two readings of the clock.
\<close>

theorem shouldReauthenticate_policy:
  "(sessionLifetime b = 0 \<longrightarrow> \<not> shouldReauthenticate E (b, log))
   \<and> (sessionLifetime b \<noteq> 0 \<and> authenticatedAt b = None \<longrightarrow> shouldReauthenticate E (b, log))
   \<and> (\<forall>time. sessionLifetime b \<noteq> 0 \<and> authenticatedAt b = Some time \<longrightarrow>
         shouldReauthenticate E (b, log)
         = (millisSince (hrtime_now E log) time + reauthenticationThreshold b
              \<ge> sessionLifetime b))
   \<and> (\<forall>time. 0 \<le> snd time \<and> snd time < 1000000000
         \<and> 0 \<le> snd (hrtime_now E log) \<and> snd (hrtime_now E log) < 1000000000 \<longrightarrow>
         millisSince (hrtime_now E log) time
         = ((fst (hrtime_now E log) * 1000000000 + snd (hrtime_now E log))
            - (fst time * 1000000000 + snd time)) div 1000000)"
proof (intro conjI allI impI)
  fix time :: hrtime
  assume "0 \<le> snd time \<and> snd time < 1000000000
          \<and> 0 \<le> snd (hrtime_now E log) \<and> snd (hrtime_now E log) < 1000000000"
  then show "millisSince (hrtime_now E log) time
         = ((fst (hrtime_now E log) * 1000000000 + snd (hrtime_now E log))
            - (fst time * 1000000000 + snd time)) div 1000000"
    by (simp add: millisSince_nanoseconds)
qed (simp_all add: shouldReauthenticate_def)

theorem shouldReauthenticate_policy_witness:
  "sessionLifetime broker0 = 0 \<and> \<not> shouldReauthenticate env0 (broker0, [])
   \<and> sessionLifetime (broker0\<lparr>sessionLifetime := 60000\<rparr>) \<noteq> 0
   \<and> authenticatedAt (broker0\<lparr>sessionLifetime := 60000\<rparr>) = None
   \<and> shouldReauthenticate env0 (broker0\<lparr>sessionLifetime := 60000\<rparr>, [])
   \<and> sessionLifetime broker_authenticated \<noteq> 0
   \<and> authenticatedAt broker_authenticated = Some (60, 0)
   \<and> (0::int) \<le> snd (60::int, 0::int) \<and> snd (60::int, 0::int) < (1000000000::int)
   \<and> 0 \<le> snd (hrtime_now env0 []) \<and> snd (hrtime_now env0 []) < 1000000000
   \<and> millisSince (hrtime_now env0 []) (60, 0) = 40000
   \<and> \<not> shouldReauthenticate env0 (broker_authenticated, [])
   \<and> shouldReauthenticate env0 (broker_authenticated\<lparr>authenticatedAt := Some (50, 0)\<rparr>, [])"
  using shouldReauthenticate_policy [of broker0 env0 "[]"]
    shouldReauthenticate_policy [of "broker0\<lparr>sessionLifetime := 60000\<rparr>" env0 "[]"]
    shouldReauthenticate_policy [of broker_authenticated env0 "[]"]
    shouldReauthenticate_policy [of "broker_authenticated\<lparr>authenticatedAt := Some (50, 0)\<rparr>"
      env0 "[]"]
  by (simp add: broker0_def new_Broker_def broker_authenticated_def env0_def millisSince_def
      hrtime_since_def Long_divide_def)

subsection \<open>\<^verbatim>\<open>isConnected\<close>\<close>

text \<open>
  C1. With SASL configured, \<open>isConnected\<close> is true if and only if the connection reports
  connected, \<open>authenticatedAt\<close> is set and the re-authentication predicate is false;
  without SASL it is exactly the connection's \<open>connected\<close> flag.
\<close>

theorem isConnected_spec:
  "(sasl E \<longrightarrow> isConnected E (b, log)
       = (connected E log \<and> authenticatedAt b \<noteq> None \<and> \<not> shouldReauthenticate E (b, log)))
   \<and> (\<not> sasl E \<longrightarrow> isConnected E (b, log) = connected E log)"
  by (simp add: isConnected_def)

theorem isConnected_spec_witness:
  "sasl env0 \<and> isConnected env0 (broker_authenticated, [])
   \<and> \<not> isConnected env0 (broker0, [])
   \<and> \<not> sasl (env0\<lparr>sasl := False\<rparr>) \<and> isConnected (env0\<lparr>sasl := False\<rparr>) (broker0, [])"
  using isConnected_spec [of env0 broker_authenticated "[]"]
    isConnected_spec [of env0 broker0 "[]"]
    isConnected_spec [of "env0\<lparr>sasl := False\<rparr>" broker0 "[]"]
  by (simp add: broker0_def new_Broker_def broker_authenticated_def env0_def
      shouldReauthenticate_def millisSince_def hrtime_since_def Long_divide_def)

subsection \<open>\<^verbatim>\<open>disconnect\<close> and the send path\<close>

text \<open>
  C10. \<open>disconnect\<close> sets \<open>authenticatedAt\<close> to unset before it delegates to the
  connection's disconnect, so \<open>authenticatedAt\<close> is unset afterwards whether the
  connection's disconnect returns or raises; no other field of the broker changes, and
  the connection's disconnect is called once.
\<close>

theorem disconnect_clears_authenticatedAt:
  "disconnect E (b, log)
   = ((case connection_disconnect E log of None \<Rightarrow> Inr () | Some e \<Rightarrow> Inl e),
      (b\<lparr>authenticatedAt := None\<rparr>, log @ [ConnectionDisconnect]))"
  by (simp add: disconnect_def split: option.splits)

theorem disconnect_clears_authenticatedAt_witness:
  "disconnect env_closed_failing_disconnect (broker_authenticated, [])
   = (Inl (Error ''socket already destroyed''),
      (broker_authenticated\<lparr>authenticatedAt := None\<rparr>, [ConnectionDisconnect]))
   \<and> disconnect env0 (broker_authenticated, [])
   = (Inr (), (broker_authenticated\<lparr>authenticatedAt := None\<rparr>, [ConnectionDisconnect]))"
  using disconnect_clears_authenticatedAt [of env_closed_failing_disconnect broker_authenticated "[]"]
    disconnect_clears_authenticatedAt [of env0 broker_authenticated "[]"]
  by (simp add: env_closed_failing_disconnect_def env_closed_def env0_def)

text \<open>
  C3, as amended. When the connection's send fails with the connection-closed error, the
  broker calls \<open>disconnect\<close> (\<open>authenticatedAt\<close> becomes unset and the connection's
  disconnect is called once); it then raises the same error again if the connection's
  disconnect returned, and the error of the connection's disconnect if that failed. A
  send failure of any other kind is raised unchanged, and the broker is not modified.
\<close>

theorem sendRequest_errors:
  assumes "connection_send E log req = Inl e"
  shows "(err_name e = ''KafkaJSConnectionClosedError'' \<longrightarrow>
            sendRequest E (b, log) req
            = ((case connection_disconnect E (log @ [ConnectionSend req]) of
                  None \<Rightarrow> Inl e | Some e' \<Rightarrow> Inl e'),
               (b\<lparr>authenticatedAt := None\<rparr>, log @ [ConnectionSend req, ConnectionDisconnect])))
       \<and> (err_name e \<noteq> ''KafkaJSConnectionClosedError'' \<longrightarrow>
            sendRequest E (b, log) req = (Inl e, (b, log @ [ConnectionSend req])))"
  using assms by (simp add: sendRequest_def disconnect_def split: option.splits)

theorem sendRequest_errors_witness:
  "connection_send env_closed [] (apiVersions_request env0 2) = Inl ConnectionClosedError
   \<and> err_name ConnectionClosedError = ''KafkaJSConnectionClosedError''
   \<and> sendRequest env_closed (broker_authenticated, []) (apiVersions_request env0 2)
     = (Inl ConnectionClosedError,
        (broker_authenticated\<lparr>authenticatedAt := None\<rparr>,
         [ConnectionSend (apiVersions_request env0 2), ConnectionDisconnect]))
   \<and> connection_send env_timeout [] (apiVersions_request env0 2) = Inl RequestTimeoutError
   \<and> err_name RequestTimeoutError \<noteq> ''KafkaJSConnectionClosedError''
   \<and> sendRequest env_timeout (broker_authenticated, []) (apiVersions_request env0 2)
     = (Inl RequestTimeoutError,
        (broker_authenticated, [ConnectionSend (apiVersions_request env0 2)]))"
  using sendRequest_errors [of env_closed "[]" "apiVersions_request env0 2"
      ConnectionClosedError broker_authenticated]
    sendRequest_errors [of env_timeout "[]" "apiVersions_request env0 2"
      RequestTimeoutError broker_authenticated]
  by (simp add: env_closed_def env_timeout_def env0_def ConnectionClosedError_def
      RequestTimeoutError_def)

text \<open>
  C3, as stated, fails where the connection's disconnect fails as well: the error raised
  is then the one of the disconnect, not the connection-closed error of the send.
\<close>

theorem sendRequest_reraise_counterexample:
  "connection_send env_closed_failing_disconnect [] (apiVersions_request env0 2)
     = Inl ConnectionClosedError
   \<and> err_name ConnectionClosedError = ''KafkaJSConnectionClosedError''
   \<and> fst (sendRequest env_closed_failing_disconnect (broker_authenticated, [])
            (apiVersions_request env0 2))
     = Inl (Error ''socket already destroyed'')
   \<and> Error ''socket already destroyed'' \<noteq> ConnectionClosedError"
  by (simp add: sendRequest_def disconnect_def env_closed_failing_disconnect_def
      env_closed_def env0_def ConnectionClosedError_def Error_def)

subsection \<open>\<^verbatim>\<open>apiVersions\<close>: the order of the probes\<close>

text \<open>Every pass through the send path hands exactly one request to the connection.\<close>

lemma sent_requests_sendRequest:
  "sent_requests (snd (snd (sendRequest E w r))) = sent_requests (snd w) @ [r]"
  by (simp add: sendRequest_def disconnect_def sent_requests_def Let_def
      split: sum.splits option.splits)

text \<open>
  The requests that \<open>apiVersions\<close> sends are those of an initial segment of
  \<open>availableVersions\<close>, in that order, each with \<open>requestTimeout\<close> equal to the
  connection's \<open>connectionTimeout\<close>.
\<close>

lemma apiVersions_loop_probes:
  "\<exists>k\<le>length cs. sent_requests (snd (snd (apiVersions_loop E w cs)))
        = sent_requests (snd w) @ map (apiVersions_request E) (take k cs)"
proof (induction cs arbitrary: w)
  case Nil
  show ?case by simp
next
  case (Cons c cs)
  obtain res w1 where s: "sendRequest E w (apiVersions_request E c) = (res, w1)"
    by (cases "sendRequest E w (apiVersions_request E c)") blast
  have w1: "sent_requests (snd w1) = sent_requests (snd w) @ [apiVersions_request E c]"
    using sent_requests_sendRequest [of E w "apiVersions_request E c"] s by simp
  show ?case
  proof (cases "\<exists>e. res = Inl e \<and> err_type e = Some ''UNSUPPORTED_VERSION''")
    case True
    then have "apiVersions_loop E w (c # cs) = apiVersions_loop E w1 cs"
      using s by auto
    moreover obtain k where "k \<le> length cs"
      "sent_requests (snd (snd (apiVersions_loop E w1 cs)))
        = sent_requests (snd w1) @ map (apiVersions_request E) (take k cs)"
      using Cons.IH [of w1] by blast
    ultimately have "Suc k \<le> length (c # cs) \<and>
      sent_requests (snd (snd (apiVersions_loop E w (c # cs))))
        = sent_requests (snd w) @ map (apiVersions_request E) (take (Suc k) (c # cs))"
      using w1 by simp
    then show ?thesis by blast
  next
    case False
    then have "snd (apiVersions_loop E w (c # cs)) = w1"
      using s by (cases res) auto
    then have "Suc 0 \<le> length (c # cs) \<and>
      sent_requests (snd (snd (apiVersions_loop E w (c # cs))))
        = sent_requests (snd w) @ map (apiVersions_request E) (take (Suc 0) (c # cs))"
      using w1 by simp
    then show ?thesis by blast
  qed
qed

lemma apiVersions_snd: "snd (apiVersions E w) = snd (apiVersions_loop E w (availableVersions E))"
  by (auto simp: apiVersions_def split: prod.splits sum.splits option.splits response.splits
      if_splits)

lemma apiVersions_probes:
  "\<exists>k\<le>length (availableVersions E). sent_requests (snd (snd (apiVersions E w)))
        = sent_requests (snd w) @ map (apiVersions_request E) (take k (availableVersions E))"
  using apiVersions_loop_probes [of "availableVersions E" E w] by (simp add: apiVersions_snd)

lemma apiVersions_request_fields:
  "requestTimeout (apiVersions_request E c) = Some (connectionTimeout E)"
  "apiVersion (apiVersions_request E c) = c"
  by (simp_all add: apiVersions_request_def protocol_def)


text \<open>
  When every implemented version is below 10 the string order of the sort agrees with the
  numeric order, and the candidates are probed in strictly descending order.
\<close>

lemma Number_toString_digit: "n < 10 \<Longrightarrow> Number_toString n = [''0123456789'' ! n]"
  by (simp add: Number_toString.simps)

lemma singleton_le: "[c] \<le> [d] \<longleftrightarrow> c \<le> (d::char)"
  by (auto simp: order.order_iff_strict)

lemma digit_code:
  assumes "n < 10"
  shows "of_char (''0123456789'' ! n) = (48 + n :: nat)"
proof -
  from assms have "n \<in> {0, 1, 2, 3, 4, 5, 6, 7, 8, 9}" by auto
  then show ?thesis by auto
qed

lemma toString_digit_le:
  assumes "a < 10" "b < 10"
  shows "Number_toString a \<le> Number_toString b \<longleftrightarrow> a \<le> b"
proof -
  have "Number_toString a \<le> Number_toString b
        \<longleftrightarrow> ''0123456789'' ! a \<le> ''0123456789'' ! b"
    using assms by (simp only: Number_toString_digit singleton_le)
  also have "\<dots> \<longleftrightarrow> (of_char (''0123456789'' ! a) :: nat) \<le> of_char (''0123456789'' ! b)"
    by (simp only: less_eq_char_def)
  also have "\<dots> \<longleftrightarrow> a \<le> b"
    using assms by (simp only: digit_code) simp
  finally show ?thesis .
qed

lemma sorted_single_digits:
  assumes "\<forall>x\<in>set xs. x < 10" and "sorted (map Number_toString xs)"
  shows "sorted xs"
  using assms
proof (induction xs)
  case Nil
  show ?case by simp
next
  case (Cons x xs)
  then show ?case
    by (auto simp: toString_digit_le)
qed

lemma Array_sort_single_digits:
  assumes "\<forall>x\<in>set xs. x < 10"
  shows "sorted (Array_sort xs)"
proof -
  have "\<forall>x\<in>set (Array_sort xs). x < 10"
    using assms by (simp add: Array_sort_def)
  moreover have "sorted (map Number_toString (Array_sort xs))"
    by (simp add: Array_sort_def)
  ultimately show ?thesis by (rule sorted_single_digits)
qed

lemma availableVersions_descending:
  assumes "\<forall>x\<in>set (requests_versions E ApiVersions). x < 10"
    and "distinct (requests_versions E ApiVersions)"
  shows "sorted_wrt (>) (availableVersions E)"
proof -
  have "sorted (Array_sort (requests_versions E ApiVersions))"
    using assms(1) by (rule Array_sort_single_digits)
  moreover have "distinct (Array_sort (requests_versions E ApiVersions))"
    using assms(2) by (simp add: Array_sort_def)
  ultimately have "sorted_wrt (<) (Array_sort (requests_versions E ApiVersions))"
    by (simp add: strict_sorted_iff)
  then show ?thesis
    by (simp add: availableVersions_def sorted_wrt_rev)
qed

text \<open>
  C4. The claim is that the candidates are probed in strictly descending numeric order,
  each with \<open>requestTimeout\<close> equal to \<open>connectionTimeout\<close>. The sort has no
  comparison function, so a client that implements the versions 2 and 10 probes version 2
  first: the source at that input.
\<close>

theorem apiVersions_probes_two_before_ten:
  "requests_versions env_two_ten ApiVersions = [2, 10]
   \<and> availableVersions env_two_ten = [2, 10]
   \<and> map apiVersion (sent_requests (snd (snd (apiVersions env_two_ten (broker0, []))))) = [2, 10]"
  by (simp add: env_two_ten_def env0_def availableVersions_def Array_sort_def
      Number_toString.simps apiVersions_def sendRequest_def UnsupportedVersion_def
      apiVersions_request_def protocol_def sent_requests_def)

subsection \<open>\<^verbatim>\<open>apiVersions\<close>: errors and result\<close>

text \<open>
  A candidate whose request fails with the kind \<^verbatim>\<open>UNSUPPORTED_VERSION\<close> is skipped and
  the loop goes on with the next candidate; a failure of any other kind is raised at once;
  a response ends the loop.
\<close>

lemma apiVersions_loop_unsupported:
  assumes "sendRequest E w (apiVersions_request E c) = (Inl e, w')"
    and "err_type e = Some ''UNSUPPORTED_VERSION''"
  shows "apiVersions_loop E w (c # rest) = apiVersions_loop E w' rest"
  using assms by simp

lemma apiVersions_loop_other_error:
  assumes "sendRequest E w (apiVersions_request E c) = (Inl e, w')"
    and "err_type e \<noteq> Some ''UNSUPPORTED_VERSION''"
  shows "apiVersions_loop E w (c # rest) = (Inl e, w')"
  using assms by simp

lemma apiVersions_loop_response:
  assumes "sendRequest E w (apiVersions_request E c) = (Inr r, w')"
  shows "apiVersions_loop E w (c # rest) = (Inr (Some r), w')"
  using assms by simp

lemma apiVersions_loop_exhausted:
  assumes "apiVersions_loop E w cs = (Inr None, w')"
  shows "sent_requests (snd w') = sent_requests (snd w) @ map (apiVersions_request E) cs"
  using assms
proof (induction cs arbitrary: w)
  case Nil
  then show ?case by simp
next
  case (Cons c cs)
  obtain res w1 where s: "sendRequest E w (apiVersions_request E c) = (res, w1)"
    by (cases "sendRequest E w (apiVersions_request E c)") blast
  have w1: "sent_requests (snd w1) = sent_requests (snd w) @ [apiVersions_request E c]"
    using sent_requests_sendRequest [of E w "apiVersions_request E c"] s by simp
  from Cons.prems s have "apiVersions_loop E w1 cs = (Inr None, w')"
    by (cases res) (auto split: if_splits)
  then have "sent_requests (snd w') = sent_requests (snd w1) @ map (apiVersions_request E) cs"
    by (rule Cons.IH)
  with w1 show ?case by simp
qed

lemma apiVersions_exhausted:
  assumes "apiVersions_loop E w (availableVersions E) = (Inr None, w')"
  shows "apiVersions E w = (Inl (KafkaJSNonRetriableError ''API Versions not supported''), w')"
  using assms by (simp add: apiVersions_def)

lemma apiVersions_success:
  assumes "apiVersions_loop E w (availableVersions E) = (Inr (Some (ApiVersionsResponse vs)), w')"
  shows "apiVersions E w = (Inr (reduce_apiVersions vs), w')"
  using assms by (simp add: apiVersions_def)

lemma apiVersions_falsy_response:
  assumes "apiVersions_loop E w (availableVersions E) = (Inr (Some response), w')"
    and "\<not> response_truthy response"
  shows "apiVersions E w = (Inl (KafkaJSNonRetriableError ''API Versions not supported''), w')"
  using assms by (simp add: apiVersions_def)

lemma apiVersions_reraised:
  assumes "apiVersions_loop E w (availableVersions E) = (Inl e, w')"
  shows "apiVersions E w = (Inl e, w')"
  using assms by (simp add: apiVersions_def)

text \<open>The table returned maps each key to the bounds of the last row that has the key.\<close>

lemma foldl_map_upd:
  "foldl (\<lambda>obj v. obj(k v \<mapsto> f v)) m vs = m ++ map_of (rev (map (\<lambda>v. (k v, f v)) vs))"
proof (induction vs arbitrary: m)
  case Nil
  show ?case by simp
next
  case (Cons v vs)
  let ?M = "map_of (rev (map (\<lambda>v. (k v, f v)) vs))"
  have "foldl (\<lambda>obj v. obj(k v \<mapsto> f v)) m (v # vs) = m(k v \<mapsto> f v) ++ ?M"
    by (simp only: foldl_Cons Cons.IH)
  also have "m(k v \<mapsto> f v) = m ++ [k v \<mapsto> f v]"
    by simp
  also have "(m ++ [k v \<mapsto> f v]) ++ ?M = m ++ ([k v \<mapsto> f v] ++ ?M)"
    by (rule map_add_assoc [symmetric])
  also have "[k v \<mapsto> f v] ++ ?M = map_of (rev (map (\<lambda>v. (k v, f v)) (v # vs)))"
    by simp
  finally show ?case .
qed

lemma reduce_apiVersions_map_of:
  "reduce_apiVersions vs
   = map_of (rev (map (\<lambda>v. (av_apiKey v, (av_minVersion v, av_maxVersion v))) vs))"
  by (simp add: reduce_apiVersions_def foldl_map_upd)

text \<open>
  C5. The claim is that a candidate failing with \<^verbatim>\<open>UNSUPPORTED_VERSION\<close> is skipped and
  the next lower candidate is tried, that other failures are raised at once, that
  exhaustion raises the non-retriable error and that the result is the reduced table. The
  lemmas above give all of it for the next candidate in the order of the probes; with the
  versions 2 and 10 that next candidate is the higher one: the source at that input.
\<close>

theorem apiVersions_unsupported_then_higher:
  "availableVersions env_two_ten = [2, 10]
   \<and> fst (sendRequest env_two_ten (broker0, []) (apiVersions_request env_two_ten 2))
       = Inl UnsupportedVersion
   \<and> err_type UnsupportedVersion = Some ''UNSUPPORTED_VERSION''
   \<and> apiVersions_loop env_two_ten (broker0, []) (availableVersions env_two_ten)
       = apiVersions_loop env_two_ten
           (broker0, [ConnectionSend (apiVersions_request env_two_ten 2)]) [10]"
  by (simp add: env_two_ten_def env0_def availableVersions_def Array_sort_def
      Number_toString.simps sendRequest_def UnsupportedVersion_def)

subsection \<open>\<^verbatim>\<open>connect\<close> and \<^verbatim>\<open>lookupRequest\<close>\<close>

lemma connect_probe_fields:
  "lookupRequest (connect_probe E b) = lookupRequest b"
  "versions (connect_probe E b) = versions b"
  by (simp_all add: connect_probe_def split: sum.splits)

lemma connect_authenticate_fields:
  "lookupRequest (fst (snd (connect_authenticate E w))) = lookupRequest (fst w)"
  "versions (fst (snd (connect_authenticate E w))) = versions (fst w)"
  by (simp_all add: connect_authenticate_def Let_def split: sum.splits)

lemma connect_versions_table:
  assumes "connect_versions E w = (Inr vt, w')"
  shows "versions (fst w') = Some vt"
  using assms
  by (auto simp: connect_versions_def split: option.splits sum.splits prod.splits)

lemma sendRequest_lookupRequest:
  "lookupRequest (fst (snd (sendRequest E w r))) = lookupRequest (fst w)"
  by (simp add: sendRequest_def disconnect_def Let_def split: sum.splits option.splits)

lemma apiVersions_loop_lookupRequest:
  "lookupRequest (fst (snd (apiVersions_loop E w cs))) = lookupRequest (fst w)"
proof (induction cs arbitrary: w)
  case Nil
  show ?case by simp
next
  case (Cons c cs)
  obtain res w1 where s: "sendRequest E w (apiVersions_request E c) = (res, w1)"
    by (cases "sendRequest E w (apiVersions_request E c)") blast
  have "lookupRequest (fst w1) = lookupRequest (fst w)"
    using sendRequest_lookupRequest [of E w "apiVersions_request E c"] s by simp
  with s Cons.IH [of w1] show ?case
    by (cases res) auto
qed

lemma apiVersions_lookupRequest:
  "lookupRequest (fst (snd (apiVersions E w))) = lookupRequest (fst w)"
proof -
  obtain res w1 where l: "apiVersions_loop E w (availableVersions E) = (res, w1)"
    by (cases "apiVersions_loop E w (availableVersions E)") blast
  have "lookupRequest (fst w1) = lookupRequest (fst w)"
    using apiVersions_loop_lookupRequest [of E w "availableVersions E"] l by simp
  with l show ?thesis
    by (auto simp: apiVersions_def split: sum.splits option.splits response.splits if_splits)
qed

lemma connect_try_lookupRequest:
  assumes "connect_try E (b, log) = (Inr (), (b', log'))"
    and "\<not> isConnected E (b, log @ [LockAcquire])"
  shows "\<exists>vt. lookupRequest b' = lookup vt \<and> versions b' = Some vt"
proof -
  let ?w2 = "(b\<lparr>authenticatedAt := None\<rparr>, log @ [LockAcquire, ConnectionConnect])"
  from assms obtain vt w3 where cv: "connect_versions E ?w2 = (Inr vt, w3)"
    and ca: "connect_authenticate E
               (connect_probe E ((fst w3)\<lparr>lookupRequest := lookup vt\<rparr>), snd w3)
             = (Inr (), (b', log'))"
    by (auto simp: connect_try_def Let_def split: option.splits sum.splits prod.splits if_splits)
  have "versions (fst w3) = Some vt"
    using cv by (rule connect_versions_table)
  then show ?thesis
    using connect_authenticate_fields
      [of E "(connect_probe E ((fst w3)\<lparr>lookupRequest := lookup vt\<rparr>), snd w3)"] ca
    by (simp add: connect_probe_fields)
qed

text \<open>
  A broker as the constructor leaves it has the sentinel for \<open>lookupRequest\<close>, which
  raises \<open>Broker not connected\<close> for every API.
\<close>

lemma notInitializedLookup_raises:
  "lookupRequest (new_Broker n vs t1 t2 aa sp) = notInitializedLookup
   \<and> call_lookupRequest E (new_Broker n vs t1 t2 aa sp) a = Inl (Error ''Broker not connected'')"
  by (simp add: call_lookupRequest_def new_Broker_def)

text \<open>
  A \<open>connect\<close> that holds the lock and finds the broker connected returns at once and
  leaves every field of the broker as it was.
\<close>

lemma connect_early_return:
  assumes "lock_acquire E log = None" and "isConnected E (b, log @ [LockAcquire])"
  shows "connect E (b, log)
         = ((case lock_release E (log @ [LockAcquire]) of None \<Rightarrow> Inr () | Some e \<Rightarrow> Inl e),
            (b, log @ [LockAcquire, LockRelease]))"
  using assms by (simp add: connect_def connect_try_def split: option.splits)

text \<open>
  A \<open>connect\<close> that returns successfully without having found the broker connected
  leaves \<open>lookupRequest\<close> the closure \<open>lookup\<close> of the broker's versions table.
\<close>

lemma connect_sets_lookupRequest:
  assumes "connect E (b, log) = (Inr (), (b', log'))"
    and "\<not> isConnected E (b, log @ [LockAcquire])"
  shows "\<exists>vt. lookupRequest b' = lookup vt \<and> versions b' = Some vt"
proof -
  obtain r b1 log1 where t: "connect_try E (b, log) = (r, (b1, log1))"
    by (cases "connect_try E (b, log)") auto
  with assms(1) have "r = Inr ()" "b1 = b'"
    by (auto simp: connect_def split: option.splits)
  with t assms(2) connect_try_lookupRequest [of E b log b' log1] show ?thesis
    by simp
qed

text \<open>
  So a \<open>connect\<close> that returns successfully ends on the sentinel only if it returned
  early on a broker that had the sentinel before the call.
\<close>

lemma connect_sentinel_only_early:
  assumes "connect E (b, log) = (Inr (), (b', log'))"
    and "lookupRequest b' = notInitializedLookup"
  shows "isConnected E (b, log @ [LockAcquire]) \<and> b' = b
         \<and> lookupRequest b = notInitializedLookup"
proof -
  have c: "isConnected E (b, log @ [LockAcquire])"
    using connect_sets_lookupRequest [OF assms(1)] assms(2) by auto
  obtain r b1 log1 where t: "connect_try E (b, log) = (r, (b1, log1))"
    by (cases "connect_try E (b, log)") auto
  with assms(1) have "b1 = b'" "r = Inr ()"
    by (auto simp: connect_def split: option.splits)
  with t c have "b' = b"
    by (auto simp: connect_try_def Let_def split: option.splits)
  with c assms(2) show ?thesis by simp
qed

text \<open>
  Against the server that implements ApiVersions up to version 2, a first \<open>connect\<close> of
  a fresh broker probes version 3, then version 2, and leaves \<open>lookupRequest\<close> set.
\<close>

lemma connect_env_server:
  "\<not> isConnected env_server (broker0, [] @ [LockAcquire])
   \<and> fst (connect env_server (broker0, [])) = Inr ()
   \<and> (\<exists>vt. lookupRequest (fst (snd (connect env_server (broker0, [])))) = lookup vt
            \<and> versions (fst (snd (connect env_server (broker0, [])))) = Some vt)"
proof -
  have nc: "\<not> isConnected env_server (broker0, [] @ [LockAcquire])"
    by (simp add: isConnected_def env_server_def env0_def broker0_def new_Broker_def)
  have ok: "fst (connect env_server (broker0, [])) = Inr ()"
    by (simp add: connect_def connect_try_def connect_versions_def connect_probe_def
        connect_authenticate_def apiVersions_def availableVersions_def Array_sort_def
        Number_toString.simps apiVersions_request_def protocol_def sendRequest_def
        isConnected_def env_server_def env0_def broker0_def new_Broker_def
        UnsupportedVersion_def call_lookupRequest_def lookup_select_def
        reduce_apiVersions_def apiVersions_rows_def apiKeys0_def)
  obtain b' log' where c: "connect env_server (broker0, []) = (Inr (), (b', log'))"
    using ok by (cases "connect env_server (broker0, [])") auto
  show ?thesis
    using connect_sets_lookupRequest [OF c] nc ok c by auto
qed

text \<open>
  The same end is reached by a fresh broker whose connection is up already and has no
  SASL configured: its first \<open>connect\<close> returns at once.
\<close>

lemma connect_env_plain:
  "fst (connect env_plain (broker0, [])) = Inr ()
   \<and> lookupRequest (fst (snd (connect env_plain (broker0, [])))) = notInitializedLookup"
  by (simp add: connect_def connect_try_def isConnected_def env_plain_def env0_def
      broker0_def new_Broker_def)

text \<open>
  C6. The claim is that \<open>lookupRequest\<close> is the sentinel raising
  \<open>Broker not connected\<close> before any \<open>connect\<close>, and never that sentinel after a
  \<open>connect\<close> that returns successfully. The source at this input: a fresh broker
  without SASL whose first \<open>connect\<close> brings the transport up and then fails in the
  negotiation, because the ApiVersions request times out. The second \<open>connect\<close> finds
  the transport up, returns at once and successfully, and \<open>lookupRequest\<close> is still the
  sentinel: the next \<open>fetch\<close> raises \<open>Broker not connected\<close>.
\<close>

theorem connect_after_failed_negotiation:
  "lookupRequest broker0 = notInitializedLookup
   \<and> connect env_negotiation_timeout (broker0, [])
       = (Inl RequestTimeoutError,
          (broker0, [LockAcquire, ConnectionConnect,
                     ConnectionSend (apiVersions_request env_negotiation_timeout 2),
                     LockRelease]))
   \<and> connect env_negotiation_timeout
         (broker0, [LockAcquire, ConnectionConnect,
                    ConnectionSend (apiVersions_request env_negotiation_timeout 2),
                    LockRelease])
       = (Inr (),
          (broker0, [LockAcquire, ConnectionConnect,
                     ConnectionSend (apiVersions_request env_negotiation_timeout 2),
                     LockRelease, LockAcquire, LockRelease]))
   \<and> fetch env_negotiation_timeout
         (broker0, [LockAcquire, ConnectionConnect,
                    ConnectionSend (apiVersions_request env_negotiation_timeout 2),
                    LockRelease, LockAcquire, LockRelease]) fetch_args0
       = (Inl (Error ''Broker not connected''),
          (broker0, [LockAcquire, ConnectionConnect,
                     ConnectionSend (apiVersions_request env_negotiation_timeout 2),
                     LockRelease, LockAcquire, LockRelease]))"
proof -
  have first: "connect env_negotiation_timeout (broker0, [])
       = (Inl RequestTimeoutError,
          (broker0, [LockAcquire, ConnectionConnect,
                     ConnectionSend (apiVersions_request env_negotiation_timeout 2),
                     LockRelease]))"
    by (simp add: connect_def connect_try_def connect_versions_def apiVersions_def
        availableVersions_def Array_sort_def Number_toString.simps sendRequest_def
        isConnected_def env_negotiation_timeout_def env0_def broker0_def new_Broker_def
        RequestTimeoutError_def)
  have second: "connect env_negotiation_timeout
         (broker0, [LockAcquire, ConnectionConnect,
                    ConnectionSend (apiVersions_request env_negotiation_timeout 2),
                    LockRelease])
       = (Inr (),
          (broker0, [LockAcquire, ConnectionConnect,
                     ConnectionSend (apiVersions_request env_negotiation_timeout 2),
                     LockRelease, LockAcquire, LockRelease]))"
    by (simp add: connect_def connect_try_def isConnected_def env_negotiation_timeout_def
        env0_def)
  have sentinel: "lookupRequest broker0 = notInitializedLookup"
    by (simp add: broker0_def new_Broker_def)
  then have "fetch env_negotiation_timeout (broker0, log) fetch_args0
             = (Inl (Error ''Broker not connected''), (broker0, log))" for log
    by (simp add: fetch_def call_lookupRequest_def)
  with first second sentinel show ?thesis
    by simp
qed

subsection \<open>\<^verbatim>\<open>joinGroup\<close>\<close>

text \<open>
  The request that \<open>makeRequest\<close> builds, field by field: the caller's parameters with
  the defaults applied, and for \<open>memberId\<close> the assigned member id unless that is
  \<^verbatim>\<open>undefined\<close>.
\<close>

lemma joinGroup_request_fields:
  "joinGroup_request E v args assignedMemberId =
     \<lparr>apiKey = apiKeys E JoinGroup, apiVersion = v, apiName = JoinGroup,
      params =
        JoinGroupPayload (ja_groupId args) (ja_sessionTimeout args) (ja_rebalanceTimeout args)
          (if assignedMemberId = Undefined
           then (if ja_memberId args = Undefined then Str [] else ja_memberId args)
           else assignedMemberId)
          (if ja_protocolType args = Undefined then Str ''consumer'' else ja_protocolType args)
          (ja_groupProtocols args),
      requestTimeout = None\<rparr>"
  by (simp add: joinGroup_request_def protocol_def default_to_def)

lemma joinGroup_request_retry:
  assumes "err_memberId e = Some m"
  shows "jg_memberId (params (joinGroup_request E v args (error_memberId e))) = Str m"
    and "jg_groupId (params (joinGroup_request E v args (error_memberId e)))
         = jg_groupId (params (joinGroup_request E v args Undefined))"
    and "jg_sessionTimeout (params (joinGroup_request E v args (error_memberId e)))
         = jg_sessionTimeout (params (joinGroup_request E v args Undefined))"
    and "jg_rebalanceTimeout (params (joinGroup_request E v args (error_memberId e)))
         = jg_rebalanceTimeout (params (joinGroup_request E v args Undefined))"
    and "jg_protocolType (params (joinGroup_request E v args (error_memberId e)))
         = jg_protocolType (params (joinGroup_request E v args Undefined))"
    and "jg_groupProtocols (params (joinGroup_request E v args (error_memberId e)))
         = jg_groupProtocols (params (joinGroup_request E v args Undefined))"
    and "apiKey (joinGroup_request E v args (error_memberId e))
         = apiKey (joinGroup_request E v args Undefined)"
    and "apiVersion (joinGroup_request E v args (error_memberId e))
         = apiVersion (joinGroup_request E v args Undefined)"
    and "apiName (joinGroup_request E v args (error_memberId e))
         = apiName (joinGroup_request E v args Undefined)"
    and "requestTimeout (joinGroup_request E v args (error_memberId e))
         = requestTimeout (joinGroup_request E v args Undefined)"
    and "joinGroup_request E v args (error_memberId e)
         = joinGroup_request E v (args\<lparr>ja_memberId := Str m\<rparr>) Undefined"
  using assms by (simp_all add: joinGroup_request_fields error_memberId_def)

lemma joinGroup_request_no_memberId:
  assumes "err_memberId e = None"
  shows "joinGroup_request E v args (error_memberId e) = joinGroup_request E v args Undefined"
  using assms by (simp add: error_memberId_def)

text \<open>
  C7. Once the lookup has selected a version, \<open>joinGroup\<close> sends its request once: the
  caller's parameters, with \<open>memberId\<close> and \<open>protocolType\<close> at their defaults where the
  caller gave none. If that request succeeds, or fails with an error other than the typed
  \<open>KafkaJSMemberIdRequired\<close>, the outcome is returned or raised and nothing else is sent.
  If and only if it fails with \<open>KafkaJSMemberIdRequired\<close>, exactly one more request is
  sent, whose field \<open>memberId\<close> is the member id that the error carries and whose every
  other field is that of the first request, and whose outcome (result or error) is the
  outcome of \<open>joinGroup\<close>. At most two requests are sent.
\<close>

theorem joinGroup_retry_once:
  assumes "call_lookupRequest E b JoinGroup = Inr v"
  shows "(\<forall>r w'. sendRequest E (b, log) (joinGroup_request E v args Undefined) = (Inr r, w') \<longrightarrow>
            joinGroup E (b, log) args = (Inr r, w')
            \<and> sent_requests (snd (snd (joinGroup E (b, log) args)))
              = sent_requests log @ [joinGroup_request E v args Undefined])
       \<and> (\<forall>e w'. sendRequest E (b, log) (joinGroup_request E v args Undefined) = (Inl e, w')
                 \<and> err_name e \<noteq> ''KafkaJSMemberIdRequired'' \<longrightarrow>
            joinGroup E (b, log) args = (Inl e, w')
            \<and> sent_requests (snd (snd (joinGroup E (b, log) args)))
              = sent_requests log @ [joinGroup_request E v args Undefined])
       \<and> (\<forall>e w'. sendRequest E (b, log) (joinGroup_request E v args Undefined) = (Inl e, w')
                 \<and> err_name e = ''KafkaJSMemberIdRequired'' \<longrightarrow>
            joinGroup E (b, log) args
              = sendRequest E w' (joinGroup_request E v args (error_memberId e))
            \<and> sent_requests (snd (snd (joinGroup E (b, log) args)))
              = sent_requests log @ [joinGroup_request E v args Undefined,
                                     joinGroup_request E v args (error_memberId e)]
            \<and> (\<forall>m. err_memberId e = Some m \<longrightarrow>
                  joinGroup_request E v args (error_memberId e)
                  = joinGroup_request E v (args\<lparr>ja_memberId := Str m\<rparr>) Undefined
                  \<and> jg_memberId (params (joinGroup_request E v args (error_memberId e))) = Str m
                  \<and> jg_groupId (params (joinGroup_request E v args (error_memberId e)))
                    = jg_groupId (params (joinGroup_request E v args Undefined))
                  \<and> jg_sessionTimeout (params (joinGroup_request E v args (error_memberId e)))
                    = jg_sessionTimeout (params (joinGroup_request E v args Undefined))
                  \<and> jg_rebalanceTimeout (params (joinGroup_request E v args (error_memberId e)))
                    = jg_rebalanceTimeout (params (joinGroup_request E v args Undefined))
                  \<and> jg_protocolType (params (joinGroup_request E v args (error_memberId e)))
                    = jg_protocolType (params (joinGroup_request E v args Undefined))
                  \<and> jg_groupProtocols (params (joinGroup_request E v args (error_memberId e)))
                    = jg_groupProtocols (params (joinGroup_request E v args Undefined))
                  \<and> apiKey (joinGroup_request E v args (error_memberId e))
                    = apiKey (joinGroup_request E v args Undefined)
                  \<and> apiVersion (joinGroup_request E v args (error_memberId e))
                    = apiVersion (joinGroup_request E v args Undefined)
                  \<and> apiName (joinGroup_request E v args (error_memberId e))
                    = apiName (joinGroup_request E v args Undefined)
                  \<and> requestTimeout (joinGroup_request E v args (error_memberId e))
                    = requestTimeout (joinGroup_request E v args Undefined))
            \<and> (err_memberId e = None \<longrightarrow>
                  joinGroup_request E v args (error_memberId e)
                  = joinGroup_request E v args Undefined))
       \<and> length (sent_requests (snd (snd (joinGroup E (b, log) args))))
           \<le> length (sent_requests log) + 2
       \<and> joinGroup_request E v args Undefined
           = \<lparr>apiKey = apiKeys E JoinGroup, apiVersion = v, apiName = JoinGroup,
              params =
                JoinGroupPayload (ja_groupId args) (ja_sessionTimeout args)
                  (ja_rebalanceTimeout args)
                  (if ja_memberId args = Undefined then Str [] else ja_memberId args)
                  (if ja_protocolType args = Undefined then Str ''consumer''
                   else ja_protocolType args)
                  (ja_groupProtocols args),
              requestTimeout = None\<rparr>"
proof -
  obtain res w1 where Pair: "sendRequest E (b, log) (joinGroup_request E v args Undefined) = (res, w1)"
    by (cases "sendRequest E (b, log) (joinGroup_request E v args Undefined)") blast
  have first: "sent_requests (snd w1) = sent_requests log @ [joinGroup_request E v args Undefined]"
    using sent_requests_sendRequest [of E "(b, log)" "joinGroup_request E v args Undefined"] Pair
    by simp
  have shape: "joinGroup_request E v args Undefined
           = \<lparr>apiKey = apiKeys E JoinGroup, apiVersion = v, apiName = JoinGroup,
              params =
                JoinGroupPayload (ja_groupId args) (ja_sessionTimeout args)
                  (ja_rebalanceTimeout args)
                  (if ja_memberId args = Undefined then Str [] else ja_memberId args)
                  (if ja_protocolType args = Undefined then Str ''consumer''
                   else ja_protocolType args)
                  (ja_groupProtocols args),
              requestTimeout = None\<rparr>"
    by (simp add: joinGroup_request_fields)
  show ?thesis
  proof (cases res)
    case (Inr r)
    have "joinGroup E (b, log) args = (Inr r, w1)"
      using Pair assms Inr by (simp add: joinGroup_def)
    with Pair Inr first show ?thesis
      by (intro conjI allI impI) (simp_all add: shape [symmetric])
  next
    case (Inl e)
    show ?thesis
    proof (cases "err_name e = ''KafkaJSMemberIdRequired''")
      case False
      have "joinGroup E (b, log) args = (Inl e, w1)"
        using Pair assms Inl False by (simp add: joinGroup_def)
      with Pair Inl False first show ?thesis
        by (intro conjI allI impI) (simp_all add: shape [symmetric])
    next
      case True
      have jg: "joinGroup E (b, log) args
              = sendRequest E w1 (joinGroup_request E v args (error_memberId e))"
        using Pair assms Inl True by (simp add: joinGroup_def)
      have retry: "sent_requests (snd (snd (joinGroup E (b, log) args)))
          = sent_requests log @ [joinGroup_request E v args Undefined,
                                 joinGroup_request E v args (error_memberId e)]"
        using sent_requests_sendRequest [of E w1 "joinGroup_request E v args (error_memberId e)"]
          first jg
        by simp
      show ?thesis
      proof (intro conjI allI impI)
        show "joinGroup_request E v args Undefined
           = \<lparr>apiKey = apiKeys E JoinGroup, apiVersion = v, apiName = JoinGroup,
              params =
                JoinGroupPayload (ja_groupId args) (ja_sessionTimeout args)
                  (ja_rebalanceTimeout args)
                  (if ja_memberId args = Undefined then Str [] else ja_memberId args)
                  (if ja_protocolType args = Undefined then Str ''consumer''
                   else ja_protocolType args)
                  (ja_groupProtocols args),
              requestTimeout = None\<rparr>"
          by (rule shape)
      qed (use Pair Inl True jg retry in
            \<open>simp_all add: joinGroup_request_fields error_memberId_def\<close>)
    qed
  qed
qed

theorem joinGroup_retry_once_witness:
  "call_lookupRequest env_member_id broker_connected JoinGroup = Inr 2
   \<and> fst (sendRequest env_member_id (broker_connected, [])
            (joinGroup_request env_member_id 2 joinGroup_args0 Undefined)) = Inl MemberIdRequired
   \<and> err_name MemberIdRequired = ''KafkaJSMemberIdRequired''
   \<and> err_memberId MemberIdRequired = Some ''m-7''
   \<and> fst (joinGroup env_member_id (broker_connected, []) joinGroup_args0)
       = Inr (OtherResponse Null)
   \<and> sent_requests (snd (snd (joinGroup env_member_id (broker_connected, []) joinGroup_args0)))
       = [\<lparr>apiKey = 11, apiVersion = 2, apiName = JoinGroup,
           params = JoinGroupPayload (Str ''g'') (Num 30000) (Num 60000) (Str [])
                      (Str ''consumer'') (Arr []),
           requestTimeout = None\<rparr>,
          \<lparr>apiKey = 11, apiVersion = 2, apiName = JoinGroup,
           params = JoinGroupPayload (Str ''g'') (Num 30000) (Num 60000) (Str ''m-7'')
                      (Str ''consumer'') (Arr []),
           requestTimeout = None\<rparr>]
   \<and> jg_memberId (params (joinGroup_request env_member_id 2 joinGroup_args0
                             (error_memberId MemberIdRequired))) = Str ''m-7''
   \<and> call_lookupRequest env_timeout broker_connected JoinGroup = Inr 2
   \<and> fst (joinGroup env_timeout (broker_connected, []) joinGroup_args0) = Inl RequestTimeoutError
   \<and> err_name RequestTimeoutError \<noteq> ''KafkaJSMemberIdRequired''
   \<and> sent_requests (snd (snd (joinGroup env_timeout (broker_connected, []) joinGroup_args0)))
       = [\<lparr>apiKey = 11, apiVersion = 2, apiName = JoinGroup,
           params = JoinGroupPayload (Str ''g'') (Num 30000) (Num 60000) (Str [])
                      (Str ''consumer'') (Arr []),
           requestTimeout = None\<rparr>]
   \<and> call_lookupRequest env0 broker_connected JoinGroup = Inr 2
   \<and> fst (joinGroup env0 (broker_connected, []) joinGroup_args0) = Inr (OtherResponse Null)
   \<and> sent_requests (snd (snd (joinGroup env0 (broker_connected, []) joinGroup_args0)))
       = [\<lparr>apiKey = 11, apiVersion = 2, apiName = JoinGroup,
           params = JoinGroupPayload (Str ''g'') (Num 30000) (Num 60000) (Str [])
                      (Str ''consumer'') (Arr []),
           requestTimeout = None\<rparr>]"
proof -
  have l: "call_lookupRequest env_member_id broker_connected JoinGroup = Inr 2"
    "call_lookupRequest env_timeout broker_connected JoinGroup = Inr 2"
    "call_lookupRequest env0 broker_connected JoinGroup = Inr 2"
    by (simp_all add: call_lookupRequest_def lookup_select_def broker_connected_def
        broker0_def new_Broker_def versions0_def env_member_id_def env_timeout_def env0_def
        apiKeys0_def)
  have s: "sendRequest env_member_id (broker_connected, [])
             (joinGroup_request env_member_id 2 joinGroup_args0 Undefined)
           = (Inl MemberIdRequired, (broker_connected,
               [ConnectionSend (joinGroup_request env_member_id 2 joinGroup_args0 Undefined)]))"
    "sendRequest env_timeout (broker_connected, [])
             (joinGroup_request env_timeout 2 joinGroup_args0 Undefined)
           = (Inl RequestTimeoutError, (broker_connected,
               [ConnectionSend (joinGroup_request env_timeout 2 joinGroup_args0 Undefined)]))"
    "sendRequest env0 (broker_connected, []) (joinGroup_request env0 2 joinGroup_args0 Undefined)
           = (Inr (OtherResponse Null), (broker_connected,
               [ConnectionSend (joinGroup_request env0 2 joinGroup_args0 Undefined)]))"
    by (simp_all add: sendRequest_def env_member_id_def env_timeout_def env0_def
        sent_requests_def MemberIdRequired_def RequestTimeoutError_def)
  have r: "sendRequest env_member_id (broker_connected,
               [ConnectionSend (joinGroup_request env_member_id 2 joinGroup_args0 Undefined)])
             (joinGroup_request env_member_id 2 joinGroup_args0 (error_memberId MemberIdRequired))
           = (Inr (OtherResponse Null), (broker_connected,
               [ConnectionSend (joinGroup_request env_member_id 2 joinGroup_args0 Undefined),
                ConnectionSend (joinGroup_request env_member_id 2 joinGroup_args0
                                  (error_memberId MemberIdRequired))]))"
    by (simp add: sendRequest_def env_member_id_def env0_def sent_requests_def)
  have e: "err_name MemberIdRequired = ''KafkaJSMemberIdRequired''"
    "err_memberId MemberIdRequired = Some ''m-7''"
    "err_name RequestTimeoutError \<noteq> ''KafkaJSMemberIdRequired''"
    by (simp_all add: MemberIdRequired_def RequestTimeoutError_def)
  have q: "joinGroup_request env_member_id 2 joinGroup_args0 Undefined
           = \<lparr>apiKey = 11, apiVersion = 2, apiName = JoinGroup,
              params = JoinGroupPayload (Str ''g'') (Num 30000) (Num 60000) (Str [])
                         (Str ''consumer'') (Arr []),
              requestTimeout = None\<rparr>"
    "joinGroup_request env_timeout 2 joinGroup_args0 Undefined
           = \<lparr>apiKey = 11, apiVersion = 2, apiName = JoinGroup,
              params = JoinGroupPayload (Str ''g'') (Num 30000) (Num 60000) (Str [])
                         (Str ''consumer'') (Arr []),
              requestTimeout = None\<rparr>"
    "joinGroup_request env0 2 joinGroup_args0 Undefined
           = \<lparr>apiKey = 11, apiVersion = 2, apiName = JoinGroup,
              params = JoinGroupPayload (Str ''g'') (Num 30000) (Num 60000) (Str [])
                         (Str ''consumer'') (Arr []),
              requestTimeout = None\<rparr>"
    "joinGroup_request env_member_id 2 joinGroup_args0 (error_memberId MemberIdRequired)
           = \<lparr>apiKey = 11, apiVersion = 2, apiName = JoinGroup,
              params = JoinGroupPayload (Str ''g'') (Num 30000) (Num 60000) (Str ''m-7'')
                         (Str ''consumer'') (Arr []),
              requestTimeout = None\<rparr>"
    by (simp_all add: joinGroup_request_def protocol_def default_to_def joinGroup_args0_def
        error_memberId_def MemberIdRequired_def env_member_id_def env_timeout_def env0_def
        apiKeys0_def)
  have j1: "joinGroup env_member_id (broker_connected, []) joinGroup_args0
            = sendRequest env_member_id (broker_connected,
               [ConnectionSend (joinGroup_request env_member_id 2 joinGroup_args0 Undefined)])
               (joinGroup_request env_member_id 2 joinGroup_args0 (error_memberId MemberIdRequired))"
    using joinGroup_retry_once [OF l(1), of "[]" joinGroup_args0] s(1) e(1) by blast
  have j2: "joinGroup env_timeout (broker_connected, []) joinGroup_args0
            = (Inl RequestTimeoutError, (broker_connected,
               [ConnectionSend (joinGroup_request env_timeout 2 joinGroup_args0 Undefined)]))"
    using joinGroup_retry_once [OF l(2), of "[]" joinGroup_args0] s(2) e(3) by blast
  have j3: "joinGroup env0 (broker_connected, []) joinGroup_args0
            = (Inr (OtherResponse Null), (broker_connected,
               [ConnectionSend (joinGroup_request env0 2 joinGroup_args0 Undefined)]))"
    using joinGroup_retry_once [OF l(3), of "[]" joinGroup_args0] s(3) by blast
  have m: "jg_memberId (params (joinGroup_request env_member_id 2 joinGroup_args0
                             (error_memberId MemberIdRequired))) = Str ''m-7''"
    using joinGroup_retry_once [OF l(1), of "[]" joinGroup_args0] s(1) e(1) e(2) by blast
  have f: "fst (joinGroup env_member_id (broker_connected, []) joinGroup_args0)
             = Inr (OtherResponse Null)"
    "sent_requests (snd (snd (joinGroup env_member_id (broker_connected, []) joinGroup_args0)))
       = [joinGroup_request env_member_id 2 joinGroup_args0 Undefined,
          joinGroup_request env_member_id 2 joinGroup_args0 (error_memberId MemberIdRequired)]"
    "fst (joinGroup env_timeout (broker_connected, []) joinGroup_args0) = Inl RequestTimeoutError"
    "sent_requests (snd (snd (joinGroup env_timeout (broker_connected, []) joinGroup_args0)))
       = [joinGroup_request env_timeout 2 joinGroup_args0 Undefined]"
    "fst (joinGroup env0 (broker_connected, []) joinGroup_args0) = Inr (OtherResponse Null)"
    "sent_requests (snd (snd (joinGroup env0 (broker_connected, []) joinGroup_args0)))
       = [joinGroup_request env0 2 joinGroup_args0 Undefined]"
    by (simp_all add: j1 j2 j3 r sent_requests_def)
  have s1: "fst (sendRequest env_member_id (broker_connected, [])
            (joinGroup_request env_member_id 2 joinGroup_args0 Undefined)) = Inl MemberIdRequired"
    by (simp add: s(1))
  show ?thesis
    by (intro conjI)
       (simp_all only: l e q s1 [unfolded q] m [unfolded q] f [unfolded q] not_False_eq_True)
qed

subsection \<open>\<^verbatim>\<open>fetch\<close>\<close>














subsection \<open>\<^verbatim>\<open>listOffsets\<close>\<close>

lemma delete_absent: "map_of p k = None \<Longrightarrow> AList.delete k p = p"
  by (induction p) (auto split: if_splits)

lemma normalizePartition_normalised:
  assumes "normalizePartition p = Inr p'"
  shows "offsets_normalised p p'"
proof (cases "map_of p ''offsets''")
  case None
  with assms show ?thesis
    by (simp add: normalizePartition_def offsets_normalised_def delete_absent)
next
  case (Some v)
  show ?thesis
  proof (cases v)
    case (Arr xs)
    with Some assms have p': "p' = AList.update ''offset'' (Array_pop xs) (AList.delete ''offsets'' p)"
      by (simp add: normalizePartition_def)
    show ?thesis
      using Some Arr
      by (simp add: offsets_normalised_def p' update_conv' delete_conv' Array_pop_def)
  qed (use Some assms in \<open>auto simp: normalizePartition_def offsets_normalised_def Let_def
                                 split: if_splits\<close>)
qed

lemma map_raising_list_all2:
  assumes "map_raising f xs = Inr ys" and "\<And>x y. f x = Inr y \<Longrightarrow> P x y"
  shows "list_all2 P xs ys"
  using assms(1)
proof (induction xs arbitrary: ys)
  case Nil
  then show ?case by simp
next
  case (Cons x xs)
  then show ?case
    by (auto split: sum.splits intro: assms(2))
qed
lemma normalizeResponse_normalised:
  assumes "normalizeResponse r = Inr r'"
  shows "response_normalised r r'"
proof -
  from assms obtain ps where ps: "map_raising normalizePartition (to_partitions r) = Inr ps"
    and r': "r' = r\<lparr>to_partitions := ps\<rparr>"
    by (auto simp: normalizeResponse_def split: sum.splits)
  from ps have "list_all2 offsets_normalised (to_partitions r) ps"
    by (rule map_raising_list_all2) (rule normalizePartition_normalised)
  with r' show ?thesis by (simp add: response_normalised_def)
qed

text \<open>The callback returns for every record whose \<^verbatim>\<open>offsets\<close> is absent or an array.\<close>

lemma normalizePartition_returns:
  assumes "map_of p ''offsets'' = None \<or> (\<exists>xs. map_of p ''offsets'' = Some (Arr xs))"
  shows "\<exists>p'. normalizePartition p = Inr p'"
  using assms by (auto simp: normalizePartition_def)

text \<open>
  C9. In every response that \<open>listOffsets\<close> returns, which is the response of the
  connection with the partitions of every entry replaced, each partition record that had
  an array \<^verbatim>\<open>offsets\<close> is the same record without \<^verbatim>\<open>offsets\<close> and with
  \<^verbatim>\<open>offset\<close> equal to the last element of the array, and each partition record without
  \<^verbatim>\<open>offsets\<close> is unchanged.
\<close>

theorem listOffsets_normalisation:
  assumes "listOffsets E (b, log) args = (Inr result, w')"
  shows "\<exists>v throttleTime responses rs.
           call_lookupRequest E b ListOffsets = Inr v
           \<and> sendRequest E (b, log) (listOffsets_request E v args)
               = (Inr (ListOffsetsResponse throttleTime responses), w')
           \<and> result = ListOffsetsResponse throttleTime rs
           \<and> list_all2 response_normalised responses rs"
proof -
  from assms obtain v where v: "call_lookupRequest E b ListOffsets = Inr v"
    by (auto simp: listOffsets_def split: sum.splits)
  obtain res w1 where s: "sendRequest E (b, log) (listOffsets_request E v args) = (res, w1)"
    by (cases "sendRequest E (b, log) (listOffsets_request E v args)") blast
  from assms v s obtain throttleTime responses rs where
    "res = Inr (ListOffsetsResponse throttleTime responses)" "w1 = w'"
    "map_raising normalizeResponse responses = Inr rs"
    "result = ListOffsetsResponse throttleTime rs"
    by (auto simp: listOffsets_def split: sum.splits response.splits)
  moreover from this have "list_all2 response_normalised responses rs"
    by (auto intro: map_raising_list_all2 normalizeResponse_normalised)
  ultimately show ?thesis using v s by blast
qed

theorem listOffsets_normalisation_witness:
  "listOffsets env_offsets (broker_connected, []) listOffsets_args0
     = (Inr (ListOffsetsResponse 0
          [\<lparr>to_topic = ''t'',
            to_partitions =
              [[(''partition'', Num 0), (''errorCode'', Num 0), (''offset'', Str ''7'')],
               [(''partition'', Num 1), (''errorCode'', Num 0), (''offset'', Str ''42'')]]\<rparr>]),
        (broker_connected,
         [ConnectionSend (listOffsets_request env_offsets 2 listOffsets_args0)]))
   \<and> (\<exists>v throttleTime responses rs.
         call_lookupRequest env_offsets broker_connected ListOffsets = Inr v
         \<and> sendRequest env_offsets (broker_connected, [])
               (listOffsets_request env_offsets v listOffsets_args0)
             = (Inr (ListOffsetsResponse throttleTime responses),
                (broker_connected,
                 [ConnectionSend (listOffsets_request env_offsets 2 listOffsets_args0)]))
         \<and> ListOffsetsResponse 0
               [\<lparr>to_topic = ''t'',
                 to_partitions =
                   [[(''partition'', Num 0), (''errorCode'', Num 0), (''offset'', Str ''7'')],
                    [(''partition'', Num 1), (''errorCode'', Num 0), (''offset'', Str ''42'')]]\<rparr>]
             = ListOffsetsResponse throttleTime rs
         \<and> list_all2 response_normalised responses rs)"
proof -
  have l: "call_lookupRequest env_offsets broker_connected ListOffsets = Inr 2"
    by (simp add: call_lookupRequest_def lookup_select_def broker_connected_def
        broker0_def new_Broker_def versions0_def env_offsets_def env0_def apiKeys0_def)
  have r: "listOffsets env_offsets (broker_connected, []) listOffsets_args0
     = (Inr (ListOffsetsResponse 0
          [\<lparr>to_topic = ''t'',
            to_partitions =
              [[(''partition'', Num 0), (''errorCode'', Num 0), (''offset'', Str ''7'')],
               [(''partition'', Num 1), (''errorCode'', Num 0), (''offset'', Str ''42'')]]\<rparr>]),
        (broker_connected,
         [ConnectionSend (listOffsets_request env_offsets 2 listOffsets_args0)]))"
  proof -
    have "sendRequest env_offsets (broker_connected, [])
            (listOffsets_request env_offsets 2 listOffsets_args0)
          = (Inr listOffsets_response0, (broker_connected,
               [ConnectionSend (listOffsets_request env_offsets 2 listOffsets_args0)]))"
      by (simp add: sendRequest_def env_offsets_def env0_def)
    then show ?thesis
      by (simp add: listOffsets_def l listOffsets_response0_def normalizeResponse_def
          normalizePartition_def Array_pop_def)
  qed
  show ?thesis
    using listOffsets_normalisation [OF r] r by simp
qed

end
